theory Spec2Isabelle
  imports Complex_Main "HOL-Library.Signed_Division" "HOL-Library.Monad_Syntax"
    "HOL-Library.Log_Nat"
begin

section \<open>Values that cross the HTTP boundary\<close>

text \<open>
  A field of \<^verbatim>\<open>req.body\<close> is an arbitrary JSON value. The handlers only ever ask whether
  it is a string, a number, or absent, so a value is one of those or "something else".
  The numbers of a request and of a row are the integers among the doubles: amounts are
  integers of the smallest currency unit and odds are integers on the scale 100. The
  arithmetic on them that can leave the integers, \<^verbatim>\<open>Math.floor((betAmount * odds) / 100)\<close>
  and \<^verbatim>\<open>parseInt\<close>, is modelled in double precision below. \<open>JNaN\<close> is what
  \<^verbatim>\<open>parseInt\<close> gives for a string with no leading digits. A string is the list of the
  bytes of its UTF-8 encoding; \<open>length\<close> is the length the schemas compare for ASCII text.
\<close>

datatype jsval = JUndefined | JNumber int | JNaN | JString string | JOther

text \<open>
  Modelled from the spec: \<^verbatim>\<open>GameType.CRICKET_TOSS\<close> is declared in \<^verbatim>\<open>@shared/schema\<close>, which
  is not among the sources. The enumeration is a string enumeration; the value is the one
  the history table matches on (\<^verbatim>\<open>case 'cricket_toss'\<close>).
\<close>

abbreviation CRICKET_TOSS :: string where "CRICKET_TOSS \<equiv> ''cricket_toss''"

text \<open>
  Modelled from the spec: \<^verbatim>\<open>TeamMatchResult.TEAM_A\<close> is declared in \<^verbatim>\<open>@shared/schema\<close>, which
  is not among the sources. The value is the one the handlers' messages spell out ("Bet
  must be on either team_a or team_b") and the spec's scenarios use.
\<close>

abbreviation TEAM_A :: string where "TEAM_A \<equiv> ''team_a''"

text \<open>
  Modelled from the spec: \<^verbatim>\<open>TeamMatchResult.TEAM_B\<close>, declared in \<^verbatim>\<open>@shared/schema\<close> like
  \<open>TEAM_A\<close>.
\<close>

abbreviation TEAM_B :: string where "TEAM_B \<equiv> ''team_b''"

subsection \<open>Double precision\<close>

text \<open>
  A JavaScript number is an IEEE 754 double. A finite double is a rational number
  \<open>m * 2^e\<close> with \<open>\<bar>m\<bar> < 2^53\<close>, and every arithmetic operation returns the double nearest
  to the exact result, a tie going to the even significand. \<open>toDouble\<close> is this rounding:
  \<open>binaryExponent x\<close> is \<open>\<lfloor>log\<^sub>2 \<bar>x\<bar>\<rfloor>\<close>, so that \<open>x\<close> is rounded to a multiple of
  \<open>2 ^ (binaryExponent x - 52)\<close>. The exponent is not bounded: overflow to Infinity (from
  \<open>2^1024\<close>) and the subnormal numbers (below \<open>2^-1022\<close>) are outside the model.
\<close>

definition roundHalfEven :: "rat \<Rightarrow> int" where
  "roundHalfEven y =
     (let f = \<lfloor>y\<rfloor>; d = y - of_int f
      in if d < 1 / 2 then f else if 1 / 2 < d then f + 1 else if even f then f else f + 1)"

definition binaryExponent :: "rat \<Rightarrow> int" where
  "binaryExponent x =
     (case quotient_of \<bar>x\<bar> of
        (n, d) \<Rightarrow> (let k = bitlen n - bitlen d in if 2 powi k \<le> \<bar>x\<bar> then k else k - 1))"

definition toDouble :: "rat \<Rightarrow> rat" where
  "toDouble x =
     (if x = 0 then 0
      else (let u = 2 powi (binaryExponent x - 52)
            in of_int (roundHalfEven (x / u)) * u))"

subsection \<open>\<^verbatim>\<open>parseInt(s, 10)\<close>\<close>

text \<open>
  Leading white space is skipped, one sign is read, and the longest prefix of decimal
  digits is the value, rounded to the nearest double; no digit at all gives NaN (\<open>None\<close>).
  White space is the set of ECMAScript (\<^verbatim>\<open>WhiteSpace\<close> and \<^verbatim>\<open>LineTerminator\<close>), read in
  the UTF-8 encoding of the string:
  \<^item> one byte: TAB, LF, VT, FF, CR, SP (9 to 13, and 32);
  \<^item> two bytes: U+00A0 (C2 A0);
  \<^item> three bytes: U+1680 (E1 9A 80), U+2000 to U+200A (E2 80 80 to E2 80 8A), U+2028,
    U+2029 and U+202F (E2 80 A8, A9, AF), U+205F (E2 81 9F), U+3000 (E3 80 80) and U+FEFF
    (EF BB BF).

  A digit string whose value is beyond the doubles is Infinity in the code; here it stays
  the large integer, which like Infinity passes the schema and is above every balance
  that a double can hold.
\<close>

definition isWhiteSpace1 :: "char \<Rightarrow> bool" where
  "isWhiteSpace1 c \<longleftrightarrow> (of_char c :: nat) \<in> {9, 10, 11, 12, 13, 32}"

definition isWhiteSpace2 :: "char \<Rightarrow> char \<Rightarrow> bool" where
  "isWhiteSpace2 c1 c2 \<longleftrightarrow> (of_char c1 :: nat) = 194 \<and> (of_char c2 :: nat) = 160"

definition isWhiteSpace3 :: "char \<Rightarrow> char \<Rightarrow> char \<Rightarrow> bool" where
  "isWhiteSpace3 c1 c2 c3 \<longleftrightarrow>
     (let b1 = (of_char c1 :: nat); b2 = (of_char c2 :: nat); b3 = (of_char c3 :: nat)
      in (b1 = 225 \<and> b2 = 154 \<and> b3 = 128) \<or>
         (b1 = 226 \<and> b2 = 128 \<and>
            ((128 \<le> b3 \<and> b3 \<le> 138) \<or> b3 = 168 \<or> b3 = 169 \<or> b3 = 175)) \<or>
         (b1 = 226 \<and> b2 = 129 \<and> b3 = 159) \<or>
         (b1 = 227 \<and> b2 = 128 \<and> b3 = 128) \<or>
         (b1 = 239 \<and> b2 = 187 \<and> b3 = 191))"

fun skipWhiteSpace :: "string \<Rightarrow> string" where
  "skipWhiteSpace (c1 # c2 # c3 # cs) =
     (if isWhiteSpace1 c1 then skipWhiteSpace (c2 # c3 # cs)
      else if isWhiteSpace2 c1 c2 then skipWhiteSpace (c3 # cs)
      else if isWhiteSpace3 c1 c2 c3 then skipWhiteSpace cs
      else c1 # c2 # c3 # cs)"
| "skipWhiteSpace [c1, c2] =
     (if isWhiteSpace1 c1 then skipWhiteSpace [c2]
      else if isWhiteSpace2 c1 c2 then []
      else [c1, c2])"
| "skipWhiteSpace [c1] = (if isWhiteSpace1 c1 then [] else [c1])"
| "skipWhiteSpace [] = []"

definition isDigit :: "char \<Rightarrow> bool" where
  "isDigit c \<longleftrightarrow> 48 \<le> (of_char c :: nat) \<and> (of_char c :: nat) \<le> 57"

fun digitsValue :: "int \<Rightarrow> string \<Rightarrow> int" where
  "digitsValue acc [] = acc"
| "digitsValue acc (c # cs) = digitsValue (acc * 10 + (int (of_char c) - 48)) cs"

definition parseInt10 :: "string \<Rightarrow> int option" where
  "parseInt10 s =
     (let S = skipWhiteSpace s;
          sign = (case S of c # _ \<Rightarrow> if c = CHR ''-'' then - 1 else 1 | [] \<Rightarrow> (1::int));
          S' = (case S of c # cs \<Rightarrow> if c = CHR ''-'' \<or> c = CHR ''+'' then cs else S | [] \<Rightarrow> []);
          Z = takeWhile isDigit S'
      in if Z = [] then None else Some \<lfloor>toDouble (of_int (sign * digitsValue 0 Z))\<rfloor>)"

section \<open>Data model\<close>

text \<open>
  \<^verbatim>\<open>gameData\<close> is an untyped JSON object in the source; the record has every key the
  handlers write or read, optional where a writer leaves the key out.
\<close>

record game_data =
  gd_teamA :: string
  gd_teamB :: string
  gd_description :: "string option"
  gd_tossTime :: "string option"
  gd_matchTime :: "string option"
  gd_oddTeamA :: int
  gd_oddTeamB :: int
  gd_imageUrl :: "string option"
  gd_status :: "string option"
  gd_tossGameId :: "int option"
  gd_matchId :: "int option"

text \<open>
  Modelled from the spec: the row types \<^verbatim>\<open>Game\<close>, \<^verbatim>\<open>User\<close> and \<^verbatim>\<open>TeamMatch\<close> are declared
  in \<^verbatim>\<open>@shared/schema\<close>, which is not among the sources. The records below have the fields
  that the handlers read and write (they are the fields of section 3 of the spec and of the
  interface \<^verbatim>\<open>Game\<close> of the history table).

  A row of the \<^verbatim>\<open>games\<close> table. Templates created by an admin and bets placed by players
  are rows of the same table. The row's id is its key in the store.
\<close>

record game =
  g_userId :: int
  g_gameType :: string
  g_betAmount :: int
  g_prediction :: string
  g_matchId :: "int option"
  g_gameData :: "game_data option"
  g_status :: "string option"
  g_result :: string
  g_payout :: int

text \<open>
  Modelled from the spec: a row of the users table (type \<^verbatim>\<open>User\<close> of \<^verbatim>\<open>@shared/schema\<close>): the
  account of section 3 of the spec, with the role that \<^verbatim>\<open>requireAdmin\<close> reads.
\<close>

record user =
  u_role :: string
  u_balance :: int
  u_isBlocked :: bool

text \<open>\<^verbatim>\<open>req.user\<close>: the authenticated identity attached to a request.\<close>

record session_user =
  su_id :: int
  su_role :: string
  su_isBlocked :: bool

text \<open>
  Modelled from the spec: a row of the team matches (type \<^verbatim>\<open>TeamMatch\<close> of
  \<^verbatim>\<open>@shared/schema\<close>), with the fields that the play route of \<^verbatim>\<open>cricket-toss-api.ts\<close>
  reads.
\<close>

record team_match =
  tm_teamA :: string
  tm_teamB :: string
  tm_category :: string
  tm_status :: string
  tm_oddTeamA :: int
  tm_oddTeamB :: int
  tm_description :: "string option"
  tm_matchTime :: "string option"

text \<open>The tables, by id, and the id that the next inserted game row gets.\<close>

record store =
  games :: "int \<rightharpoonup> game"
  users :: "int \<rightharpoonup> user"
  teamMatches :: "int \<rightharpoonup> team_match"
  nextGameId :: int

section \<open>The storage module\<close>

text \<open>
  The module \<^verbatim>\<open>./storage\<close> is not among the sources. The spec (section 6) treats it as the
  persistence layer, a relational store, so each operation is modelled as the plain read
  or write of the row and column that its name and arguments say: a lookup by id, an
  insert under a fresh id, an update of one column of one row. An update of a missing row
  changes nothing and returns no row.
\<close>

text \<open>Modelled from the spec: \<^verbatim>\<open>storage.getGame(id)\<close>, the game row with this id, if any.\<close>

definition getGame :: "store \<Rightarrow> int \<Rightarrow> game option" where
  "getGame st i = games st i"

text \<open>Modelled from the spec: \<^verbatim>\<open>storage.getUser(id)\<close>, the user row with this id, if any.\<close>

definition getUser :: "store \<Rightarrow> int \<Rightarrow> user option" where
  "getUser st i = users st i"

text \<open>Modelled from the spec: \<^verbatim>\<open>storage.getTeamMatch(id)\<close>, the match with this id, if any.\<close>

definition getTeamMatch :: "store \<Rightarrow> int \<Rightarrow> team_match option" where
  "getTeamMatch st i = teamMatches st i"

text \<open>
  Modelled from the spec: \<^verbatim>\<open>storage.createGame(game)\<close> inserts the row under the next id and
  returns it with its id.
\<close>

definition createGame :: "store \<Rightarrow> game \<Rightarrow> (int \<times> game) \<times> store" where
  "createGame st g =
     (let i = nextGameId st
      in ((i, g), st\<lparr>games := (games st)(i \<mapsto> g), nextGameId := i + 1\<rparr>))"

text \<open>
  Modelled from the spec: \<^verbatim>\<open>storage.updateUserBalance(id, balance)\<close> sets the balance of the
  user row with this id.
\<close>

definition updateUserBalance :: "store \<Rightarrow> int \<Rightarrow> int \<Rightarrow> store" where
  "updateUserBalance st i b =
     (case users st i of
        None \<Rightarrow> st
      | Some u \<Rightarrow> st\<lparr>users := (users st)(i \<mapsto> u\<lparr>u_balance := b\<rparr>)\<rparr>)"

text \<open>
  Modelled from the spec: \<^verbatim>\<open>storage.updateGameStatus(id, status)\<close> sets the status of the
  game row with this id (the field that the creation route of \<^verbatim>\<open>cricket-toss-api.ts\<close>
  writes as \<^verbatim>\<open>status: "open"\<close>) and returns the updated row.
\<close>

definition updateGameStatus :: "store \<Rightarrow> int \<Rightarrow> string \<Rightarrow> game option \<times> store" where
  "updateGameStatus st i s =
     (case games st i of
        None \<Rightarrow> (None, st)
      | Some g \<Rightarrow>
          (let g' = g\<lparr>g_status := Some s\<rparr>
           in (Some g', st\<lparr>games := (games st)(i \<mapsto> g')\<rparr>)))"

text \<open>
  \<^verbatim>\<open>UPDATE games SET result = $1 WHERE id = $2 RETURNING *\<close>, the statement that one of
  the two result handlers sends itself. The returned rows are the updated ones: one row
  or none.
\<close>

definition updateResultColumn :: "store \<Rightarrow> string \<Rightarrow> int \<Rightarrow> game list \<times> store" where
  "updateResultColumn st r i =
     (case games st i of
        None \<Rightarrow> ([], st)
      | Some g \<Rightarrow>
          (let g' = g\<lparr>g_result := r\<rparr>
           in ([g'], st\<lparr>games := (games st)(i \<mapsto> g')\<rparr>)))"

text \<open>
  Modelled from the spec: \<^verbatim>\<open>storage.updateGameResult(id, result)\<close> is part of the missing
  storage module; it is taken to write the same column as the SQL statement of the sibling
  handler, and to return the updated row.
\<close>

definition updateGameResult :: "store \<Rightarrow> int \<Rightarrow> string \<Rightarrow> game option \<times> store" where
  "updateGameResult st i r =
     (case updateResultColumn st r i of
        ([], st') \<Rightarrow> (None, st')
      | (g' # _, st') \<Rightarrow> (Some g', st'))"

text \<open>
  Every call to the store is awaited inside \<^verbatim>\<open>try { ... } catch (err) { next(err) }\<close>,
  so each one may throw. Which calls throw is an input of the model; a call that throws
  has written nothing.
\<close>

datatype storage_call =
  GetGame | GetGameAgain | GetTeamMatch | GetUser
  | CreateGame | UpdateUserBalance | UpdateGameStatus | UpdateGameResult | PoolQuery

type_synonym faults = "storage_call \<Rightarrow> bool"

definition no_faults :: faults where
  "no_faults = (\<lambda>_. False)"

section \<open>Responses\<close>

text \<open>
  One constructor for each failure a handler can answer with. The names are those of the
  spec where it has one:
  \<^item> \<open>InvalidGameId\<close>: 400 "Invalid game ID";
  \<^item> \<open>Unauthorized\<close>: 401;
  \<^item> \<open>Forbidden\<close>: 403, the caller is not an admin;
  \<^item> \<open>AccountBlocked\<close>: 403 "Your account is blocked";
  \<^item> \<open>ValidationError\<close>: 400 "Invalid data" / "Invalid bet amount or prediction";
  \<^item> \<open>NotFound\<close>: 404, no such game, match or user;
  \<^item> \<open>NotCricketToss\<close>: 400 "Game is not a Cricket Toss game" / "Match is not a Cricket Toss match";
  \<^item> \<open>GameNotOpen\<close>: 400 "Game is not open for betting" / "Match is not open for betting";
  \<^item> \<open>InsufficientBalance\<close>: 400 "Insufficient balance";
  \<^item> \<open>UpdateFailed\<close>: 500 "Failed to update game result" / "Failed to retrieve updated game";
  \<^item> \<open>InternalError\<close>: the exception handed to \<^verbatim>\<open>next(err)\<close>.
\<close>

datatype error =
  InvalidGameId | Unauthorized | Forbidden | AccountBlocked | ValidationError | NotFound
  | NotCricketToss | GameNotOpen | InsufficientBalance | UpdateFailed | InternalError

datatype response =
  GameCreated int game
  | GameUpdated "game option"
  | BetPlacedUser int game user
  | BetPlacedPayout int game int

type_synonym outcome = "(error + response) \<times> store"

section \<open>Request validation\<close>

record create_body =
  cb_teamA :: jsval
  cb_teamB :: jsval
  cb_description :: jsval
  cb_tossTime :: jsval
  cb_oddTeamA :: jsval
  cb_oddTeamB :: jsval
  cb_imageUrl :: jsval

record create_data =
  cd_teamA :: string
  cd_teamB :: string
  cd_description :: "string option"
  cd_tossTime :: string
  cd_oddTeamA :: int
  cd_oddTeamB :: int
  cd_imageUrl :: "string option"

definition z_string :: "jsval \<Rightarrow> string option" where
  "z_string v = (case v of JString s \<Rightarrow> Some s | _ \<Rightarrow> None)"

definition z_string_min :: "nat \<Rightarrow> jsval \<Rightarrow> string option" where
  "z_string_min n v = (case v of JString s \<Rightarrow> if n \<le> length s then Some s else None | _ \<Rightarrow> None)"

definition z_string_optional :: "jsval \<Rightarrow> string option option" where
  "z_string_optional v =
     (case v of JUndefined \<Rightarrow> Some None | JString s \<Rightarrow> Some (Some s) | _ \<Rightarrow> None)"

definition z_number_min_max :: "int \<Rightarrow> int \<Rightarrow> jsval \<Rightarrow> int option" where
  "z_number_min_max lo hi v =
     (case v of JNumber n \<Rightarrow> if lo \<le> n \<and> n \<le> hi then Some n else None | _ \<Rightarrow> None)"

definition z_number_min :: "int \<Rightarrow> jsval \<Rightarrow> int option" where
  "z_number_min lo v = (case v of JNumber n \<Rightarrow> if lo \<le> n then Some n else None | _ \<Rightarrow> None)"

definition createCricketTossSchema :: "create_body \<Rightarrow> create_data option" where
  "createCricketTossSchema b = do {
     teamA \<leftarrow> z_string_min 2 (cb_teamA b);
     teamB \<leftarrow> z_string_min 2 (cb_teamB b);
     description \<leftarrow> z_string_optional (cb_description b);
     tossTime \<leftarrow> z_string (cb_tossTime b);
     oddTeamA \<leftarrow> z_number_min_max 100 2000 (cb_oddTeamA b);
     oddTeamB \<leftarrow> z_number_min_max 100 2000 (cb_oddTeamB b);
     imageUrl \<leftarrow> z_string_optional (cb_imageUrl b);
     Some \<lparr>cd_teamA = teamA, cd_teamB = teamB, cd_description = description,
           cd_tossTime = tossTime, cd_oddTeamA = oddTeamA, cd_oddTeamB = oddTeamB,
           cd_imageUrl = imageUrl\<rparr>
   }"

text \<open>\<^verbatim>\<open>x || ""\<close> on an optional string.\<close>

definition orEmpty :: "string option \<Rightarrow> string" where
  "orEmpty x = (case x of None \<Rightarrow> [] | Some s \<Rightarrow> s)"

definition z_team :: "jsval \<Rightarrow> string option" where
  "z_team v =
     (case v of
        JString s \<Rightarrow> if s \<in> set [TEAM_A, TEAM_B] then Some s else None
      | _ \<Rightarrow> None)"

definition updateCricketTossStatusSchema :: "jsval \<Rightarrow> string option" where
  "updateCricketTossStatusSchema v =
     (case v of
        JString s \<Rightarrow> if s \<in> set [''open'', ''closed'', ''resulted''] then Some s else None
      | _ \<Rightarrow> None)"

definition declareCricketTossResultSchema :: "jsval \<Rightarrow> string option" where
  "declareCricketTossResultSchema v = z_team v"

record play_body =
  pb_betAmount :: jsval
  pb_betOn :: jsval

text \<open>The client may send the amount as a string: it is parsed before validation.\<close>

definition parsedBody :: "play_body \<Rightarrow> play_body" where
  "parsedBody b =
     b\<lparr>pb_betAmount :=
         (case pb_betAmount b of
            JString s \<Rightarrow> (case parseInt10 s of None \<Rightarrow> JNaN | Some n \<Rightarrow> JNumber n)
          | v \<Rightarrow> v)\<rparr>"

definition playSchema :: "play_body \<Rightarrow> (int \<times> string) option" where
  "playSchema b = do {
     betAmount \<leftarrow> z_number_min 10 (pb_betAmount b);
     betOn \<leftarrow> z_team (pb_betOn b);
     Some (betAmount, betOn)
   }"

definition requireAdmin :: "session_user option \<Rightarrow> error option" where
  "requireAdmin ru =
     (case ru of
        None \<Rightarrow> Some Unauthorized
      | Some u \<Rightarrow> if su_role u \<noteq> ''admin'' then Some Forbidden else None)"

text \<open>
  \<^verbatim>\<open>Math.floor((betAmount * odds) / 100)\<close>: the product is rounded to a double, the
  quotient is rounded to a double, and the floor of a double is exact. The arguments are
  any two doubles.
\<close>

definition potentialPayout :: "rat \<Rightarrow> rat \<Rightarrow> int" where
  "potentialPayout betAmount odds = \<lfloor>toDouble (toDouble (betAmount * odds) / 100)\<rfloor>"

section \<open>Requests\<close>

text \<open>
  \<open>pr_id\<close>, \<open>sr_id\<close> and \<open>rr_id\<close> are the route parameter \<^verbatim>\<open>:id\<close> after its conversion
  to a number (\<^verbatim>\<open>parseInt(req.params.id, 10)\<close>, or \<^verbatim>\<open>Number(req.params.id)\<close>); \<open>None\<close>
  is NaN.
\<close>

record create_request =
  cr_user :: "session_user option"
  cr_body :: create_body

record play_request =
  pr_user :: "session_user option"
  pr_id :: "int option"
  pr_body :: play_body

record status_request =
  sr_user :: "session_user option"
  sr_id :: "int option"
  sr_status :: jsval

record result_request =
  rr_user :: "session_user option"
  rr_id :: "int option"
  rr_result :: jsval

section \<open>The routes of \<^verbatim>\<open>cricket-toss.ts\<close>\<close>

text \<open>
  \<^verbatim>\<open>POST /api/cricket-toss-games\<close>: an admin creates a game template. The status of the
  template is the key \<^verbatim>\<open>status\<close> of its \<^verbatim>\<open>gameData\<close>.
\<close>

definition tossRoutes_create :: "faults \<Rightarrow> store \<Rightarrow> create_request \<Rightarrow> outcome" where
  "tossRoutes_create flt st req =
     (case cr_user req of
        None \<Rightarrow> (Inl Forbidden, st)
      | Some ru \<Rightarrow>
          if su_role ru \<noteq> ''admin'' then (Inl Forbidden, st)
          else
            (case createCricketTossSchema (cr_body req) of
               None \<Rightarrow> (Inl ValidationError, st)
             | Some d \<Rightarrow>
                 (let newGame =
                    \<lparr>g_userId = su_id ru, g_gameType = CRICKET_TOSS, g_betAmount = 0,
                     g_prediction = ''pending'', g_matchId = None,
                     g_gameData = Some
                       \<lparr>gd_teamA = cd_teamA d, gd_teamB = cd_teamB d,
                        gd_description = Some (orEmpty (cd_description d)),
                        gd_tossTime = Some (cd_tossTime d), gd_matchTime = None,
                        gd_oddTeamA = cd_oddTeamA d, gd_oddTeamB = cd_oddTeamB d,
                        gd_imageUrl = Some (orEmpty (cd_imageUrl d)),
                        gd_status = Some ''open'', gd_tossGameId = None, gd_matchId = None\<rparr>,
                     g_status = None, g_result = ''pending'', g_payout = 0\<rparr>
                  in if flt CreateGame then (Inl InternalError, st)
                     else
                       (case createGame st newGame of
                          ((i, g), st') \<Rightarrow> (Inr (GameCreated i g), st')))))"

text \<open>
  \<^verbatim>\<open>POST /api/cricket-toss-games/:id/play\<close>: a player places a bet on a template. No row
  has the id NaN, so a route parameter that is not a number finds no game.
\<close>

definition tossRoutes_play :: "faults \<Rightarrow> store \<Rightarrow> play_request \<Rightarrow> outcome" where
  "tossRoutes_play flt st req =
     (case pr_user req of
        None \<Rightarrow> (Inl Unauthorized, st)
      | Some ru \<Rightarrow>
          if su_isBlocked ru then (Inl AccountBlocked, st)
          else
            (case playSchema (parsedBody (pr_body req)) of
               None \<Rightarrow> (Inl ValidationError, st)
             | Some (betAmount, betOn) \<Rightarrow>
                 if flt GetGame then (Inl InternalError, st)
                 else
                   (case pr_id req of
                      None \<Rightarrow> (Inl NotFound, st)
                    | Some gameId \<Rightarrow>
                   (case getGame st gameId of
                      None \<Rightarrow> (Inl NotFound, st)
                    | Some game \<Rightarrow>
                        if g_gameType game \<noteq> CRICKET_TOSS then (Inl NotCricketToss, st)
                        else
                          (case g_gameData game of
                             None \<Rightarrow> (Inl GameNotOpen, st)
                           | Some gameData \<Rightarrow>
                        if gd_status gameData \<noteq> Some ''open'' then (Inl GameNotOpen, st)
                        else if flt GetUser then (Inl InternalError, st)
                        else
                          (case getUser st (su_id ru) of
                             None \<Rightarrow> (Inl NotFound, st)
                           | Some user \<Rightarrow>
                        if u_balance user < betAmount then (Inl InsufficientBalance, st)
                        else if flt UpdateUserBalance then (Inl InternalError, st)
                        else
                          (let st1 = updateUserBalance st (su_id ru) (u_balance user - betAmount);
                               odds = (if betOn = TEAM_A then gd_oddTeamA gameData
                                       else gd_oddTeamB gameData);
                               userBet =
                                 \<lparr>g_userId = su_id ru, g_gameType = CRICKET_TOSS,
                                  g_betAmount = betAmount, g_prediction = betOn,
                                  g_matchId = None,
                                  g_gameData = Some
                                    \<lparr>gd_teamA = gd_teamA gameData, gd_teamB = gd_teamB gameData,
                                     gd_description = gd_description gameData,
                                     gd_tossTime = gd_tossTime gameData, gd_matchTime = None,
                                     gd_oddTeamA = gd_oddTeamA gameData,
                                     gd_oddTeamB = gd_oddTeamB gameData,
                                     gd_imageUrl = None, gd_status = Some ''pending'',
                                     gd_tossGameId = Some gameId, gd_matchId = None\<rparr>,
                                  g_status = None, g_result = ''pending'',
                                  g_payout = potentialPayout (of_int betAmount) (of_int odds)\<rparr>
                           in if flt CreateGame then (Inl InternalError, st1)
                              else
                                (case createGame st1 userBet of
                                   ((i, createdBet), st2) \<Rightarrow>
                                     (Inr (BetPlacedUser i createdBet
                                            (user\<lparr>u_balance := u_balance user - betAmount\<rparr>)),
                                      st2)))))))))"

section \<open>The routes of \<^verbatim>\<open>cricket-toss-api.ts\<close>\<close>

text \<open>
  \<^verbatim>\<open>POST /api/cricket-toss\<close>, behind \<^verbatim>\<open>requireAdmin\<close>: the template carries its status in
  the column \<^verbatim>\<open>status\<close>. The owner is \<^verbatim>\<open>req.user!.id\<close>, which throws if there is no user
  (there is one once \<^verbatim>\<open>requireAdmin\<close> has passed).
\<close>

definition tossApi_create :: "faults \<Rightarrow> store \<Rightarrow> create_request \<Rightarrow> outcome" where
  "tossApi_create flt st req =
     (case requireAdmin (cr_user req) of
        Some e \<Rightarrow> (Inl e, st)
      | None \<Rightarrow>
          (case createCricketTossSchema (cr_body req) of
             None \<Rightarrow> (Inl ValidationError, st)
           | Some d \<Rightarrow>
               (case cr_user req of
                  None \<Rightarrow> (Inl InternalError, st)
                | Some ru \<Rightarrow>
                    (let newGame =
                       \<lparr>g_userId = su_id ru, g_gameType = CRICKET_TOSS, g_betAmount = 0,
                        g_prediction = ''pending'', g_matchId = None,
                        g_gameData = Some
                          \<lparr>gd_teamA = cd_teamA d, gd_teamB = cd_teamB d,
                           gd_description = Some (orEmpty (cd_description d)),
                           gd_tossTime = Some (cd_tossTime d), gd_matchTime = None,
                           gd_oddTeamA = cd_oddTeamA d, gd_oddTeamB = cd_oddTeamB d,
                           gd_imageUrl = Some (orEmpty (cd_imageUrl d)),
                           gd_status = None, gd_tossGameId = None, gd_matchId = None\<rparr>,
                        g_status = Some ''open'', g_result = ''pending'', g_payout = 0\<rparr>
                     in if flt CreateGame then (Inl InternalError, st)
                        else
                          (case createGame st newGame of
                             ((i, g), st') \<Rightarrow> (Inr (GameCreated i g), st'))))))"

text \<open>\<^verbatim>\<open>PATCH /api/cricket-toss/:id/status\<close>, behind \<^verbatim>\<open>requireAdmin\<close>.\<close>

definition tossApi_status :: "faults \<Rightarrow> store \<Rightarrow> status_request \<Rightarrow> outcome" where
  "tossApi_status flt st req =
     (case requireAdmin (sr_user req) of
        Some e \<Rightarrow> (Inl e, st)
      | None \<Rightarrow>
          (case sr_id req of
             None \<Rightarrow> (Inl InvalidGameId, st)
           | Some gameId \<Rightarrow>
               (case updateCricketTossStatusSchema (sr_status req) of
                  None \<Rightarrow> (Inl ValidationError, st)
                | Some status \<Rightarrow>
                    if flt GetGame then (Inl InternalError, st)
                    else
                      (case getGame st gameId of
                         None \<Rightarrow> (Inl NotFound, st)
                       | Some game \<Rightarrow>
                           if g_gameType game \<noteq> CRICKET_TOSS then (Inl NotCricketToss, st)
                           else if flt UpdateGameStatus then (Inl InternalError, st)
                           else
                             (case updateGameStatus st gameId status of
                                (updatedGame, st') \<Rightarrow> (Inr (GameUpdated updatedGame), st'))))))"

text \<open>
  \<^verbatim>\<open>PATCH /api/cricket-toss/:id/result\<close>, behind \<^verbatim>\<open>requireAdmin\<close>. The source's comment at
  the two writes: "Process results and handle payouts for users who bet on this game.
  Note: In a real implementation, this would also update user balances for winners".
  The answer is the row as it was after the first write.
\<close>

definition tossApi_result :: "faults \<Rightarrow> store \<Rightarrow> result_request \<Rightarrow> outcome" where
  "tossApi_result flt st req =
     (case requireAdmin (rr_user req) of
        Some e \<Rightarrow> (Inl e, st)
      | None \<Rightarrow>
          (case rr_id req of
             None \<Rightarrow> (Inl InvalidGameId, st)
           | Some gameId \<Rightarrow>
               (case declareCricketTossResultSchema (rr_result req) of
                  None \<Rightarrow> (Inl ValidationError, st)
                | Some result \<Rightarrow>
                    if flt GetGame then (Inl InternalError, st)
                    else
                      (case getGame st gameId of
                         None \<Rightarrow> (Inl NotFound, st)
                       | Some game \<Rightarrow>
                           if g_gameType game \<noteq> CRICKET_TOSS then (Inl NotCricketToss, st)
                           else if flt UpdateGameResult then (Inl InternalError, st)
                           else
                             (case updateGameResult st gameId result of
                                (updatedGame, st1) \<Rightarrow>
                                  if flt UpdateGameStatus then (Inl InternalError, st1)
                                  else
                                    (case updateGameStatus st1 gameId ''resulted'' of
                                       (_, st2) \<Rightarrow> (Inr (GameUpdated updatedGame), st2)))))))"

text \<open>
  \<^verbatim>\<open>POST /api/cricket-toss/:id/play\<close>: the bet is placed on a team match of the category
  cricket, whose status is the column \<^verbatim>\<open>status\<close> of the match.
\<close>

definition tossApi_play :: "faults \<Rightarrow> store \<Rightarrow> play_request \<Rightarrow> outcome" where
  "tossApi_play flt st req =
     (case pr_id req of
        None \<Rightarrow> (Inl InvalidGameId, st)
      | Some gameId \<Rightarrow>
          (case pr_user req of
             None \<Rightarrow> (Inl Unauthorized, st)
           | Some ru \<Rightarrow>
               (case playSchema (parsedBody (pr_body req)) of
                  None \<Rightarrow> (Inl ValidationError, st)
                | Some (betAmount, betOn) \<Rightarrow>
                    if flt GetTeamMatch then (Inl InternalError, st)
                    else
                      (case getTeamMatch st gameId of
                         None \<Rightarrow> (Inl NotFound, st)
                       | Some match \<Rightarrow>
                        if tm_category match \<noteq> ''cricket'' then (Inl NotCricketToss, st)
                        else if tm_status match \<noteq> ''open'' then (Inl GameNotOpen, st)
                        else if flt GetUser then (Inl InternalError, st)
                        else
                          (case getUser st (su_id ru) of
                             None \<Rightarrow> (Inl NotFound, st)
                           | Some user \<Rightarrow>
                        if u_balance user < betAmount then (Inl InsufficientBalance, st)
                        else if flt UpdateUserBalance then (Inl InternalError, st)
                        else
                          (let st1 = updateUserBalance st (su_id ru) (u_balance user - betAmount);
                               odds = (if betOn = TEAM_A then tm_oddTeamA match
                                       else tm_oddTeamB match);
                               userBet =
                                 \<lparr>g_userId = su_id ru, g_gameType = CRICKET_TOSS,
                                  g_betAmount = betAmount, g_prediction = betOn,
                                  g_matchId = Some gameId,
                                  g_gameData = Some
                                    \<lparr>gd_teamA = tm_teamA match, gd_teamB = tm_teamB match,
                                     gd_description = tm_description match,
                                     gd_tossTime = None, gd_matchTime = tm_matchTime match,
                                     gd_oddTeamA = tm_oddTeamA match,
                                     gd_oddTeamB = tm_oddTeamB match,
                                     gd_imageUrl = None, gd_status = Some ''pending'',
                                     gd_tossGameId = None, gd_matchId = Some gameId\<rparr>,
                                  g_status = None, g_result = ''pending'',
                                  g_payout = potentialPayout (of_int betAmount) (of_int odds)\<rparr>
                           in if flt CreateGame then (Inl InternalError, st1)
                              else
                                (case createGame st1 userBet of
                                   ((i, createdBet), st2) \<Rightarrow>
                                     (Inr (BetPlacedPayout i createdBet
                                            (potentialPayout (of_int betAmount) (of_int odds))),
                                      st2))))))))"

section \<open>The second copy of the API routes\<close>

text \<open>
  The sources hold a second version of \<^verbatim>\<open>setupCricketTossApiRoutes\<close> (it imports
  \<^verbatim>\<open>pool\<close> from \<^verbatim>\<open>./db\<close>). Its create and status routes are those above; its result and
  play routes differ.

  \<^verbatim>\<open>PATCH /api/cricket-toss/:id/result\<close>: the handler updates the result column itself
  ("Update only the result column - the games table doesn't have a status column") and
  reads the row again. Anything thrown by the update or the second read is answered with
  500 by the inner \<^verbatim>\<open>catch\<close>.
\<close>

definition tossApi_result_sql :: "faults \<Rightarrow> store \<Rightarrow> result_request \<Rightarrow> outcome" where
  "tossApi_result_sql flt st req =
     (case requireAdmin (rr_user req) of
        Some e \<Rightarrow> (Inl e, st)
      | None \<Rightarrow>
          (case rr_id req of
             None \<Rightarrow> (Inl InvalidGameId, st)
           | Some gameId \<Rightarrow>
               (case declareCricketTossResultSchema (rr_result req) of
                  None \<Rightarrow> (Inl ValidationError, st)
                | Some result \<Rightarrow>
                    if flt GetGame then (Inl InternalError, st)
                    else
                      (case getGame st gameId of
                         None \<Rightarrow> (Inl NotFound, st)
                       | Some game \<Rightarrow>
                           if g_gameType game \<noteq> CRICKET_TOSS then (Inl NotCricketToss, st)
                           else if flt PoolQuery then (Inl UpdateFailed, st)
                           else
                             (case updateResultColumn st result gameId of
                                (rows, st1) \<Rightarrow>
                                  if length rows = 0 then (Inl NotFound, st1)
                                  else if flt GetGameAgain then (Inl UpdateFailed, st1)
                                  else
                                    (case getGame st1 gameId of
                                       None \<Rightarrow> (Inl UpdateFailed, st1)
                                     | Some updatedGame \<Rightarrow>
                                         (Inr (GameUpdated (Some updatedGame)), st1)))))))"

text \<open>
  \<^verbatim>\<open>POST /api/cricket-toss/:id/play\<close> of the second copy: the bet is placed on a game
  template, as in \<^verbatim>\<open>cricket-toss.ts\<close>, after the checks of the API route.
\<close>

definition tossApi_play_direct :: "faults \<Rightarrow> store \<Rightarrow> play_request \<Rightarrow> outcome" where
  "tossApi_play_direct flt st req =
     (case pr_id req of
        None \<Rightarrow> (Inl InvalidGameId, st)
      | Some gameId \<Rightarrow>
          (case pr_user req of
             None \<Rightarrow> (Inl Unauthorized, st)
           | Some ru \<Rightarrow>
               (case playSchema (parsedBody (pr_body req)) of
                  None \<Rightarrow> (Inl ValidationError, st)
                | Some (betAmount, betOn) \<Rightarrow>
                    if flt GetGame then (Inl InternalError, st)
                    else
                      (case getGame st gameId of
                         None \<Rightarrow> (Inl NotFound, st)
                       | Some game \<Rightarrow>
                        if g_gameType game \<noteq> CRICKET_TOSS then (Inl NotCricketToss, st)
                        else
                          (case g_gameData game of
                             None \<Rightarrow> (Inl GameNotOpen, st)
                           | Some gameData \<Rightarrow>
                        if gd_status gameData \<noteq> Some ''open'' then (Inl GameNotOpen, st)
                        else if flt GetUser then (Inl InternalError, st)
                        else
                          (case getUser st (su_id ru) of
                             None \<Rightarrow> (Inl NotFound, st)
                           | Some user \<Rightarrow>
                        if u_balance user < betAmount then (Inl InsufficientBalance, st)
                        else if flt UpdateUserBalance then (Inl InternalError, st)
                        else
                          (let st1 = updateUserBalance st (su_id ru) (u_balance user - betAmount);
                               odds = (if betOn = TEAM_A then gd_oddTeamA gameData
                                       else gd_oddTeamB gameData);
                               userBet =
                                 \<lparr>g_userId = su_id ru, g_gameType = CRICKET_TOSS,
                                  g_betAmount = betAmount, g_prediction = betOn,
                                  g_matchId = None,
                                  g_gameData = Some
                                    \<lparr>gd_teamA = gd_teamA gameData, gd_teamB = gd_teamB gameData,
                                     gd_description = gd_description gameData,
                                     gd_tossTime = gd_tossTime gameData, gd_matchTime = None,
                                     gd_oddTeamA = gd_oddTeamA gameData,
                                     gd_oddTeamB = gd_oddTeamB gameData,
                                     gd_imageUrl = None, gd_status = Some ''pending'',
                                     gd_tossGameId = Some gameId, gd_matchId = None\<rparr>,
                                  g_status = None, g_result = ''pending'',
                                  g_payout = potentialPayout (of_int betAmount) (of_int odds)\<rparr>
                           in if flt CreateGame then (Inl InternalError, st1)
                              else
                                (case createGame st1 userBet of
                                   ((i, createdBet), st2) \<Rightarrow>
                                     (Inr (BetPlacedPayout i createdBet
                                            (potentialPayout (of_int betAmount) (of_int odds))),
                                      st2)))))))))"

section \<open>The router\<close>

text \<open>A request is served by the route it names; requests are served one after another.\<close>

datatype route_call =
  TossRoutesCreate create_request
  | TossRoutesPlay play_request
  | TossApiCreate create_request
  | TossApiStatus status_request
  | TossApiResult result_request
  | TossApiPlay play_request
  | TossApiResultSql result_request
  | TossApiPlayDirect play_request

fun serve :: "faults \<Rightarrow> store \<Rightarrow> route_call \<Rightarrow> outcome" where
  "serve flt st (TossRoutesCreate req) = tossRoutes_create flt st req"
| "serve flt st (TossRoutesPlay req) = tossRoutes_play flt st req"
| "serve flt st (TossApiCreate req) = tossApi_create flt st req"
| "serve flt st (TossApiStatus req) = tossApi_status flt st req"
| "serve flt st (TossApiResult req) = tossApi_result flt st req"
| "serve flt st (TossApiPlay req) = tossApi_play flt st req"
| "serve flt st (TossApiResultSql req) = tossApi_result_sql flt st req"
| "serve flt st (TossApiPlayDirect req) = tossApi_play_direct flt st req"

fun serveAll :: "store \<Rightarrow> (faults \<times> route_call) list \<Rightarrow> store" where
  "serveAll st [] = st"
| "serveAll st ((flt, c) # cs) = serveAll (snd (serve flt st c)) cs"

section \<open>Reading an outcome\<close>

definition succeeded :: "outcome \<Rightarrow> bool" where
  "succeeded out \<longleftrightarrow> \<not> isl (fst out)"

definition failedWith :: "outcome \<Rightarrow> error option" where
  "failedWith out = (case fst out of Inl e \<Rightarrow> Some e | Inr _ \<Rightarrow> None)"

text \<open>The bet row a successful placement answers with, and the id it was stored under.\<close>

definition placedBet :: "outcome \<Rightarrow> (int \<times> game) option" where
  "placedBet out =
     (case fst out of
        Inr (BetPlacedUser i bet _) \<Rightarrow> Some (i, bet)
      | Inr (BetPlacedPayout i bet _) \<Rightarrow> Some (i, bet)
      | _ \<Rightarrow> None)"

definition createdGame :: "outcome \<Rightarrow> (int \<times> game) option" where
  "createdGame out = (case fst out of Inr (GameCreated i g) \<Rightarrow> Some (i, g) | _ \<Rightarrow> None)"

definition balanceOf :: "store \<Rightarrow> int \<Rightarrow> int option" where
  "balanceOf st uid = map_option u_balance (users st uid)"

text \<open>The status a play route on game templates reads: \<^verbatim>\<open>game.gameData?.status\<close>.\<close>

definition gameDataStatus :: "game \<Rightarrow> string option" where
  "gameDataStatus game = (case g_gameData game of None \<Rightarrow> None | Some gd \<Rightarrow> gd_status gd)"

text \<open>The odds a bet row carries for the team it predicts.\<close>

definition betOdds :: "game \<Rightarrow> int option" where
  "betOdds bet =
     (case g_gameData bet of
        None \<Rightarrow> None
      | Some gd \<Rightarrow> Some (if g_prediction bet = TEAM_A then gd_oddTeamA gd else gd_oddTeamB gd))"

text \<open>
  A placement that passes every check before the balance check, with the validated amount
  \<open>amount\<close>: on a game template (the caller's own block flag is only looked at by the
  route of \<^verbatim>\<open>cricket-toss.ts\<close>), and on a team match.
\<close>

definition validOnTemplate :: "store \<Rightarrow> play_request \<Rightarrow> int \<Rightarrow> bool" where
  "validOnTemplate st req amount \<longleftrightarrow>
     (case pr_user req of None \<Rightarrow> False | Some ru \<Rightarrow> users st (su_id ru) \<noteq> None) \<and>
     map_option fst (playSchema (parsedBody (pr_body req))) = Some amount \<and>
     (case pr_id req of
        None \<Rightarrow> False
      | Some gameId \<Rightarrow>
          (case games st gameId of
             None \<Rightarrow> False
           | Some game \<Rightarrow>
               g_gameType game = CRICKET_TOSS \<and> gameDataStatus game = Some ''open''))"

definition validOnMatch :: "store \<Rightarrow> play_request \<Rightarrow> int \<Rightarrow> bool" where
  "validOnMatch st req amount \<longleftrightarrow>
     (case pr_user req of None \<Rightarrow> False | Some ru \<Rightarrow> users st (su_id ru) \<noteq> None) \<and>
     map_option fst (playSchema (parsedBody (pr_body req))) = Some amount \<and>
     (case pr_id req of
        None \<Rightarrow> False
      | Some gameId \<Rightarrow>
          (case teamMatches st gameId of
             None \<Rightarrow> False
           | Some match \<Rightarrow> tm_category match = ''cricket'' \<and> tm_status match = ''open''))"

definition callerBlocked :: "play_request \<Rightarrow> bool" where
  "callerBlocked req = (case pr_user req of None \<Rightarrow> False | Some ru \<Rightarrow> su_isBlocked ru)"

definition callerId :: "play_request \<Rightarrow> int option" where
  "callerId req = map_option su_id (pr_user req)"

text \<open>
  The same for a call of any of the three play routes. Only the route of
  \<^verbatim>\<open>cricket-toss.ts\<close> looks at the caller's block flag.
\<close>

definition bettor :: "route_call \<Rightarrow> int option" where
  "bettor call =
     (case call of
        TossRoutesPlay req \<Rightarrow> callerId req
      | TossApiPlay req \<Rightarrow> callerId req
      | TossApiPlayDirect req \<Rightarrow> callerId req
      | _ \<Rightarrow> None)"

definition validPlacement :: "store \<Rightarrow> route_call \<Rightarrow> int \<Rightarrow> bool" where
  "validPlacement st call amount =
     (case call of
        TossRoutesPlay req \<Rightarrow> \<not> callerBlocked req \<and> validOnTemplate st req amount
      | TossApiPlayDirect req \<Rightarrow> validOnTemplate st req amount
      | TossApiPlay req \<Rightarrow> validOnMatch st req amount
      | _ \<Rightarrow> False)"

text \<open>
  What a well-formed placement asks for, and what the store offers for it: the team of the
  body, and the odds of that team in the \<^verbatim>\<open>gameData\<close> of the template, or in the match
  (\<^verbatim>\<open>betOn === TEAM_A ? oddTeamA : oddTeamB\<close>).
\<close>

definition requestedTeam :: "route_call \<Rightarrow> string option" where
  "requestedTeam call =
     (case call of
        TossRoutesPlay req \<Rightarrow> map_option snd (playSchema (parsedBody (pr_body req)))
      | TossApiPlay req \<Rightarrow> map_option snd (playSchema (parsedBody (pr_body req)))
      | TossApiPlayDirect req \<Rightarrow> map_option snd (playSchema (parsedBody (pr_body req)))
      | _ \<Rightarrow> None)"

definition templateOdds :: "store \<Rightarrow> play_request \<Rightarrow> string \<Rightarrow> int option" where
  "templateOdds st req team =
     (case pr_id req of
        None \<Rightarrow> None
      | Some gameId \<Rightarrow>
          (case games st gameId of
             None \<Rightarrow> None
           | Some game \<Rightarrow>
               (case g_gameData game of
                  None \<Rightarrow> None
                | Some gd \<Rightarrow> Some (if team = TEAM_A then gd_oddTeamA gd else gd_oddTeamB gd))))"

definition matchOdds :: "store \<Rightarrow> play_request \<Rightarrow> string \<Rightarrow> int option" where
  "matchOdds st req team =
     (case pr_id req of
        None \<Rightarrow> None
      | Some gameId \<Rightarrow>
          (case teamMatches st gameId of
             None \<Rightarrow> None
           | Some match \<Rightarrow> Some (if team = TEAM_A then tm_oddTeamA match else tm_oddTeamB match)))"

definition offeredOdds :: "store \<Rightarrow> route_call \<Rightarrow> string \<Rightarrow> int option" where
  "offeredOdds st call team =
     (case call of
        TossRoutesPlay req \<Rightarrow> templateOdds st req team
      | TossApiPlayDirect req \<Rightarrow> templateOdds st req team
      | TossApiPlay req \<Rightarrow> matchOdds st req team
      | _ \<Rightarrow> None)"

text \<open>No storage call of a play route throws.\<close>

definition placementWorks :: "faults \<Rightarrow> bool" where
  "placementWorks flt \<longleftrightarrow>
     \<not> flt GetGame \<and> \<not> flt GetTeamMatch \<and> \<not> flt GetUser \<and> \<not> flt UpdateUserBalance \<and>
     \<not> flt CreateGame"







text \<open>
  A game template is a cricket toss row with no stake ("betAmount: 0, this is a game
  template, not an actual bet"); its odds are those of its \<^verbatim>\<open>gameData\<close>.
\<close>

definition isTemplate :: "game \<Rightarrow> bool" where
  "isTemplate g \<longleftrightarrow> g_gameType g = CRICKET_TOSS \<and> g_betAmount g = 0"

definition oddsInRange :: "game \<Rightarrow> bool" where
  "oddsInRange g \<longleftrightarrow>
     (case g_gameData g of
        None \<Rightarrow> False
      | Some gd \<Rightarrow>
          100 \<le> gd_oddTeamA gd \<and> gd_oddTeamA gd \<le> 2000 \<and>
          100 \<le> gd_oddTeamB gd \<and> gd_oddTeamB gd \<le> 2000)"

definition templatesInRange :: "store \<Rightarrow> bool" where
  "templatesInRange st \<longleftrightarrow> (\<forall>i g. games st i = Some g \<longrightarrow> isTemplate g \<longrightarrow> oddsInRange g)"

text \<open>An odds value of a creation request that the schema's bounds exclude.\<close>

definition oddsOutOfRange :: "jsval \<Rightarrow> bool" where
  "oddsOutOfRange v = (case v of JNumber n \<Rightarrow> n < 100 \<or> 2000 < n | _ \<Rightarrow> False)"

section \<open>A concrete platform\<close>

text \<open>
  One template with odds 150 on team A and 200 on team B, one cricket match with the same
  odds, an admin, a player with a balance of 1000 and a blocked player with the same
  balance.
\<close>

definition demo_template :: game where
  "demo_template =
     \<lparr>g_userId = 1, g_gameType = CRICKET_TOSS, g_betAmount = 0, g_prediction = ''pending'',
      g_matchId = None,
      g_gameData = Some
        \<lparr>gd_teamA = ''India'', gd_teamB = ''Australia'', gd_description = Some [],
         gd_tossTime = Some ''2025-01-01T10:00'', gd_matchTime = None,
         gd_oddTeamA = 150, gd_oddTeamB = 200, gd_imageUrl = Some [],
         gd_status = Some ''open'', gd_tossGameId = None, gd_matchId = None\<rparr>,
      g_status = None, g_result = ''pending'', g_payout = 0\<rparr>"

definition demo_match :: team_match where
  "demo_match =
     \<lparr>tm_teamA = ''India'', tm_teamB = ''Australia'', tm_category = ''cricket'',
      tm_status = ''open'', tm_oddTeamA = 150, tm_oddTeamB = 200,
      tm_description = None, tm_matchTime = Some ''2025-01-01T10:00''\<rparr>"

definition demo_store :: store where
  "demo_store =
     \<lparr>games = [1 \<mapsto> demo_template],
      users = [1 \<mapsto> \<lparr>u_role = ''admin'', u_balance = 0, u_isBlocked = False\<rparr>,
               7 \<mapsto> \<lparr>u_role = ''player'', u_balance = 1000, u_isBlocked = False\<rparr>,
               8 \<mapsto> \<lparr>u_role = ''player'', u_balance = 1000, u_isBlocked = True\<rparr>],
      teamMatches = [1 \<mapsto> demo_match],
      nextGameId = 2\<rparr>"

definition demo_admin :: session_user where
  "demo_admin = \<lparr>su_id = 1, su_role = ''admin'', su_isBlocked = False\<rparr>"

definition demo_player :: session_user where
  "demo_player = \<lparr>su_id = 7, su_role = ''player'', su_isBlocked = False\<rparr>"

definition demo_blocked :: session_user where
  "demo_blocked = \<lparr>su_id = 8, su_role = ''player'', su_isBlocked = True\<rparr>"

definition demo_play :: "session_user \<Rightarrow> int \<Rightarrow> string \<Rightarrow> play_request" where
  "demo_play ru amount team =
     \<lparr>pr_user = Some ru, pr_id = Some 1,
      pr_body = \<lparr>pb_betAmount = JNumber amount, pb_betOn = JString team\<rparr>\<rparr>"

definition demo_declare :: "string \<Rightarrow> result_request" where
  "demo_declare team = \<lparr>rr_user = Some demo_admin, rr_id = Some 1, rr_result = JString team\<rparr>"

definition demo_set_status :: "string \<Rightarrow> status_request" where
  "demo_set_status s = \<lparr>sr_user = Some demo_admin, sr_id = Some 1, sr_status = JString s\<rparr>"

definition demo_create :: "int \<Rightarrow> int \<Rightarrow> create_request" where
  "demo_create oddA oddB =
     \<lparr>cr_user = Some demo_admin,
      cr_body = \<lparr>cb_teamA = JString ''India'', cb_teamB = JString ''Australia'',
                 cb_description = JUndefined, cb_tossTime = JString ''2025-01-01T10:00'',
                 cb_oddTeamA = JNumber oddA, cb_oddTeamB = JNumber oddB,
                 cb_imageUrl = JUndefined\<rparr>\<rparr>"

text \<open>The player has bet 1000 on team A.\<close>

definition demo_store_bet :: store where
  "demo_store_bet = snd (tossRoutes_play no_faults demo_store (demo_play demo_player 1000 TEAM_A))"

text \<open>The outcome team A has been declared on the template, with no bet placed.\<close>

definition demo_store_resulted :: store where
  "demo_store_resulted = snd (tossApi_result no_faults demo_store (demo_declare TEAM_A))"

text \<open>Betting has been closed, on the template and on the match.\<close>

definition demo_store_closed :: store where
  "demo_store_closed =
     demo_store
       \<lparr>games :=
          [1 \<mapsto> demo_template
                  \<lparr>g_gameData := map_option (\<lambda>gd. gd\<lparr>gd_status := Some ''closed''\<rparr>)
                                   (g_gameData demo_template)\<rparr>],
        teamMatches := [1 \<mapsto> demo_match\<lparr>tm_status := ''closed''\<rparr>]\<rparr>"

text \<open>The bet row of that placement, and the template once team A has been declared.\<close>

definition demo_bet :: game where
  "demo_bet =
     \<lparr>g_userId = 7, g_gameType = CRICKET_TOSS, g_betAmount = 1000, g_prediction = TEAM_A,
      g_matchId = None,
      g_gameData = Some
        \<lparr>gd_teamA = ''India'', gd_teamB = ''Australia'', gd_description = Some [],
         gd_tossTime = Some ''2025-01-01T10:00'', gd_matchTime = None,
         gd_oddTeamA = 150, gd_oddTeamB = 200, gd_imageUrl = None,
         gd_status = Some ''pending'', gd_tossGameId = Some 1, gd_matchId = None\<rparr>,
      g_status = None, g_result = ''pending'', g_payout = 1500\<rparr>"

definition demo_template_resulted :: game where
  "demo_template_resulted = demo_template\<lparr>g_result := TEAM_A, g_status := Some ''resulted''\<rparr>"

text \<open>
  The platform before the template was created. The admin has closed the template through
  the status route. The admin has created a second game through the creation route of
  \<^verbatim>\<open>cricket-toss-api.ts\<close>. A player holds a balance of 9007199254740990.
\<close>

definition demo_store_fresh :: store where
  "demo_store_fresh = demo_store\<lparr>games := Map.empty, nextGameId := 1\<rparr>"



definition demo_play_second :: play_request where
  "demo_play_second = (demo_play demo_player 100 TEAM_A)\<lparr>pr_id := Some 2\<rparr>"

definition demo_whale :: session_user where
  "demo_whale = \<lparr>su_id = 9, su_role = ''player'', su_isBlocked = False\<rparr>"

definition demo_store_whale :: store where
  "demo_store_whale =
     demo_store
       \<lparr>users := (users demo_store)
          (9 \<mapsto> \<lparr>u_role = ''player'', u_balance = 9007199254740990, u_isBlocked = False\<rparr>)\<rparr>"

text \<open>The only failing call is the insertion of a row.\<close>

definition createGame_fails :: faults where
  "createGame_fails c \<longleftrightarrow> c = CreateGame"

section \<open>Facts about the rounding to a double\<close>

lemma roundHalfEven_of_int: "roundHalfEven (of_int n) = n"
  by (simp add: roundHalfEven_def)

lemma roundHalfEven_ge: "of_int N \<le> y \<Longrightarrow> N \<le> roundHalfEven y"
proof -
  assume "of_int N \<le> y"
  then have "N \<le> \<lfloor>y\<rfloor>" by (simp add: le_floor_iff)
  then show ?thesis by (auto simp: roundHalfEven_def Let_def)
qed

lemma roundHalfEven_less: "y < of_int N - 1 / 2 \<Longrightarrow> roundHalfEven y < N"
proof -
  assume a: "y < of_int N - 1 / 2"
  then have "y < of_int N" by simp
  then have f: "\<lfloor>y\<rfloor> \<le> N - 1" by (simp add: floor_less_iff)
  show ?thesis
  proof (cases "\<lfloor>y\<rfloor> = N - 1")
    case True
    with a have "y - of_int \<lfloor>y\<rfloor> < 1 / 2" by simp
    with True show ?thesis by (simp add: roundHalfEven_def Let_def)
  next
    case False
    with f have "\<lfloor>y\<rfloor> + 1 < N" by simp
    then show ?thesis by (auto simp: roundHalfEven_def Let_def)
  qed
qed

lemma binaryExponent_le:
  assumes "x \<noteq> 0"
  shows "2 powi binaryExponent x \<le> \<bar>x\<bar>"
proof -
  obtain n d where q: "quotient_of \<bar>x\<bar> = (n, d)" by (cases "quotient_of \<bar>x\<bar>")
  then have d: "0 < d" and x: "\<bar>x\<bar> = of_int n / of_int d"
    by (auto simp: quotient_of_denom_pos quotient_of_div)
  from assms have "0 < \<bar>x\<bar>" by simp
  with x d have n: "0 < n" by (simp add: zero_less_divide_iff)
  let ?k = "bitlen n - bitlen d"
  show ?thesis
  proof (cases "2 powi ?k \<le> \<bar>x\<bar>")
    case True
    with q show ?thesis by (simp add: binaryExponent_def Let_def)
  next
    case False
    from bitlen_bounds [OF n] have bn: "2 ^ nat (bitlen n - 1) \<le> n" by simp
    from bitlen_bounds [OF d] have bd: "d < 2 ^ nat (bitlen d)" by simp
    from n have n1: "1 \<le> bitlen n" by (auto simp: bitlen_alt_def)
    from d have d1: "1 \<le> bitlen d" by (auto simp: bitlen_alt_def)
    have "(2::rat) powi (?k - 1) = 2 powi (bitlen n - 1) / 2 powi bitlen d"
      by (simp add: power_int_diff flip: diff_diff_eq) 
    also have "\<dots> = 2 ^ nat (bitlen n - 1) / 2 ^ nat (bitlen d)"
      using n1 d1 by (simp add: power_int_nonneg_exp)
    also have "\<dots> \<le> of_int n / of_int d"
    proof (rule frac_le)
      show "(2::rat) ^ nat (bitlen n - 1) \<le> of_int n"
        using bn by (metis of_int_le_iff of_int_numeral of_int_power)
      show "of_int d \<le> (2::rat) ^ nat (bitlen d)"
        using bd by (metis less_imp_le of_int_le_iff of_int_numeral of_int_power)
      show "(0::rat) < of_int d" using d by simp
      show "(0::rat) \<le> of_int n" using n by simp
    qed
    finally have "(2::rat) powi (?k - 1) \<le> \<bar>x\<bar>" using x by simp
    with False q show ?thesis by (simp add: binaryExponent_def Let_def)
  qed
qed

lemma binaryExponent_less:
  assumes "x \<noteq> 0" "\<bar>x\<bar> < 2 powi K"
  shows "binaryExponent x < K"
proof (rule ccontr)
  assume "\<not> binaryExponent x < K"
  then have "K \<le> binaryExponent x" by simp
  then have "(2::rat) powi K \<le> 2 powi binaryExponent x"
    by (intro power_int_increasing) simp_all
  with binaryExponent_le [OF assms(1)] assms(2) show False by simp
qed

lemma powi_nonpos: "e \<le> 0 \<Longrightarrow> (2::rat) powi e = 1 / 2 ^ nat (- e)"
  by (auto simp: power_int_def power_inverse field_simps)

lemma toDouble_of_int:
  assumes "\<bar>p\<bar> \<le> 2 ^ 53"
  shows "toDouble (of_int p) = of_int p"
proof (cases "p = 0")
  case True
  then show ?thesis by (simp add: toDouble_def)
next
  case False
  then have nz: "(of_int p :: rat) \<noteq> 0" by simp
  from assms have "\<bar>of_int p :: rat\<bar> \<le> 2 ^ 53"
    by (metis of_int_abs of_int_le_iff of_int_numeral of_int_power)
  then have "\<bar>of_int p :: rat\<bar> < 2 powi 54" by simp
  from binaryExponent_less [OF nz this] have e: "binaryExponent (of_int p) \<le> 53" by simp
  show ?thesis
  proof (cases "binaryExponent (of_int p) = 53")
    case True
    with binaryExponent_le [OF nz] have "(2::rat) ^ 53 \<le> \<bar>of_int p\<bar>" by simp
    then have "2 ^ 53 \<le> \<bar>p\<bar>"
      by (metis of_int_abs of_int_le_iff of_int_numeral of_int_power)
    with assms have "\<bar>p\<bar> = 2 ^ 53" by simp
    then consider "p = 2 ^ 53" | "p = - (2 ^ 53)" by (auto simp: abs_if split: if_splits)
    then show ?thesis
    proof cases
      case 1
      have "roundHalfEven (of_int (2 ^ 53) / 2) = 2 ^ 52"
        using roundHalfEven_of_int [of "2 ^ 52"] by simp
      with True 1 show ?thesis by (simp add: toDouble_def)
    next
      case 2
      have "roundHalfEven (of_int (- (2 ^ 53)) / 2) = - (2 ^ 52)"
        using roundHalfEven_of_int [of "- (2 ^ 52)"] by simp
      with True 2 show ?thesis by (simp add: toDouble_def)
    qed
  next
    case False
    with e have le: "binaryExponent (of_int p) - 52 \<le> 0" by simp
    define k where "k = nat (- (binaryExponent (of_int p) - 52))"
    have u: "(2::rat) powi (binaryExponent (of_int p) - 52) = 1 / 2 ^ k"
      unfolding k_def by (rule powi_nonpos [OF le])
    have "of_int p / (1 / 2 ^ k) = (of_int (p * 2 ^ k) :: rat)" by simp
    then have "roundHalfEven (of_int p / (1 / 2 ^ k)) = p * 2 ^ k"
      by (simp only: roundHalfEven_of_int)
    with nz u show ?thesis by (simp add: toDouble_def Let_def)
  qed
qed

lemma floor_toDouble_div_100:
  assumes "0 \<le> p" "p \<le> 2 ^ 53"
  shows "\<lfloor>toDouble (of_int p / 100)\<rfloor> = p div 100"
proof (cases "p = 0")
  case True
  then show ?thesis by (simp add: toDouble_def)
next
  case False
  define x :: rat where "x = of_int p / 100"
  define q where "q = p div 100"
  define r where "r = p mod 100"
  have pr: "p = q * 100 + r" and r0: "0 \<le> r" and r99: "r \<le> 99"
    by (simp_all add: q_def r_def)
  from False assms have xpos: "0 < x" by (simp add: x_def)
  have xr: "x = of_int q + of_int r / 100"
    by (simp add: x_def pr)
  have qx: "of_int q \<le> x"
    using r0 by (simp add: xr)
  have "(of_int r :: rat) \<le> of_int 99"
    using r99 by (simp only: of_int_le_iff)
  then have xq: "x \<le> of_int q + 99 / 100"
    by (simp add: xr)
  from assms have "of_int p \<le> (of_int (2 ^ 53) :: rat)" by (simp only: of_int_le_iff)
  then have "x \<le> 2 ^ 53 / 100" by (simp add: x_def)
  also have "\<dots> < (2::rat) ^ 47" by simp
  finally have "\<bar>x\<bar> < 2 powi 47" using xpos by simp
  from binaryExponent_less [OF _ this] xpos have "binaryExponent x < 47" by simp
  then have le: "binaryExponent x - 52 \<le> 0" and k6: "6 \<le> nat (- (binaryExponent x - 52))"
    by simp_all
  define k where "k = nat (- (binaryExponent x - 52))"
  have u: "(2::rat) powi (binaryExponent x - 52) = 1 / 2 ^ k"
    unfolding k_def by (rule powi_nonpos [OF le])
  define m where "m = roundHalfEven (x * 2 ^ k)"
  have td: "toDouble x = of_int m / 2 ^ k"
    using xpos u by (simp add: toDouble_def Let_def m_def)
  have "of_int (q * 2 ^ k) \<le> x * 2 ^ k" using qx by simp
  then have lo: "q * 2 ^ k \<le> m" unfolding m_def by (rule roundHalfEven_ge)
  have "(2::rat) ^ 6 \<le> 2 ^ k" using k6 unfolding k_def by (intro power_increasing) simp_all
  then have k64: "(64::rat) \<le> 2 ^ k" by simp
  have "x * 2 ^ k \<le> (of_int q + 99 / 100) * 2 ^ k" using xq by simp
  also have "\<dots> = of_int ((q + 1) * 2 ^ k) - 2 ^ k / 100" by (simp add: algebra_simps)
  also have "\<dots> < of_int ((q + 1) * 2 ^ k) - 1 / 2" using k64 by simp
  finally have hi: "m < (q + 1) * 2 ^ k" unfolding m_def by (rule roundHalfEven_less)
  from lo have "(of_int (q * 2 ^ k) :: rat) \<le> of_int m" by (simp only: of_int_le_iff)
  then have "(of_int q :: rat) * 2 ^ k \<le> of_int m" by simp
  then have a: "of_int q \<le> (of_int m :: rat) / 2 ^ k" by (simp add: pos_le_divide_eq)
  from hi have "(of_int m :: rat) < of_int ((q + 1) * 2 ^ k)" by (simp only: of_int_less_iff)
  then have "(of_int m :: rat) < (of_int q + 1) * 2 ^ k" by simp
  then have b: "(of_int m :: rat) / 2 ^ k < of_int q + 1" by (simp add: pos_divide_less_eq)
  from a b have "\<lfloor>(of_int m :: rat) / 2 ^ k\<rfloor> = q" by (rule floor_unique)
  with td show ?thesis by (simp add: x_def q_def)
qed

lemma potentialPayout_exact:
  assumes "0 \<le> a * od" "a * od \<le> 2 ^ 53"
  shows "potentialPayout (of_int a) (of_int od) = (a * od) div 100"
proof -
  from assms have "\<bar>a * od\<bar> \<le> 2 ^ 53" by simp
  from toDouble_of_int [OF this] have "toDouble (of_int a * of_int od) = of_int (a * od)" by simp
  with floor_toDouble_div_100 [OF assms] show ?thesis by (simp add: potentialPayout_def)
qed

lemma demo_payouts:
  "potentialPayout 1000 150 = 1500"
  "potentialPayout 100 150 = 150"
  "potentialPayout 9007199254740990 150 = 13510798882111486"
  by code_simp+

section \<open>Facts about the storage operations and the schemas\<close>

lemmas storage_defs = getGame_def getUser_def getTeamMatch_def createGame_def
  updateUserBalance_def updateGameStatus_def updateGameResult_def updateResultColumn_def

lemmas schema_defs = playSchema_def parsedBody_def z_number_min_def z_team_def z_string_def
  z_string_min_def z_string_optional_def z_number_min_max_def createCricketTossSchema_def
  updateCricketTossStatusSchema_def declareCricketTossResultSchema_def requireAdmin_def
  orEmpty_def

lemmas reading_defs = succeeded_def failedWith_def placedBet_def createdGame_def balanceOf_def
  gameDataStatus_def betOdds_def callerBlocked_def callerId_def bettor_def

lemmas demo_defs = demo_store_def demo_template_def demo_match_def demo_admin_def
  demo_player_def demo_blocked_def demo_play_def demo_declare_def demo_set_status_def
  demo_create_def demo_store_closed_def demo_bet_def demo_template_resulted_def
  demo_play_second_def demo_whale_def demo_store_whale_def demo_store_fresh_def


lemma demo_player_placement:
  "validPlacement demo_store (TossRoutesPlay (demo_play demo_player 1000 TEAM_A)) 1000"
  "validPlacement demo_store (TossApiPlay (demo_play demo_player 1000 TEAM_A)) 1000"
  "validPlacement demo_store (TossRoutesPlay (demo_play demo_player 1001 TEAM_A)) 1001"
  "bettor (TossRoutesPlay (demo_play demo_player amount TEAM_A)) = Some 7"
  "bettor (TossApiPlay (demo_play demo_player amount TEAM_A)) = Some 7"
  "balanceOf demo_store 7 = Some 1000"
  by (simp_all add: validPlacement_def validOnTemplate_def validOnMatch_def demo_defs
      reading_defs schema_defs)


lemma demo_store_bet_rows:
  "placedBet (serve no_faults demo_store (TossRoutesPlay (demo_play demo_player 1000 TEAM_A)))
     = Some (2, demo_bet)"
  "games demo_store_bet 1 = Some demo_template"
  "games demo_store_bet 2 = Some demo_bet"
  "nextGameId demo_store_bet = 3"
  "balanceOf demo_store_bet 7 = Some 0"
  by (simp_all add: demo_store_bet_def tossRoutes_play_def storage_defs demo_defs reading_defs
      schema_defs no_faults_def Let_def demo_payouts)

lemma demo_store_resulted_rows:
  "games demo_store_resulted 1 = Some demo_template_resulted"
  "g_status demo_template_resulted = Some ''resulted''"
  "g_result demo_template_resulted = TEAM_A"
  "g_gameType demo_template_resulted = CRICKET_TOSS"
  by (simp_all add: demo_store_resulted_def tossApi_result_def storage_defs demo_defs
      schema_defs no_faults_def Let_def)

lemma demo_admin_requests:
  "requireAdmin (rr_user (demo_declare team)) = None"
  "rr_id (demo_declare team) = Some 1"
  "declareCricketTossResultSchema (rr_result (demo_declare TEAM_B)) = Some TEAM_B"
  "requireAdmin (sr_user (demo_set_status s)) = None"
  "sr_id (demo_set_status s) = Some 1"
  "sr_status (demo_set_status s) = JString s"
  "requireAdmin (cr_user (demo_create a b)) = None"
  by (simp_all add: demo_defs schema_defs)

lemma demo_store_reached:
  "snd (tossRoutes_create no_faults demo_store_fresh (demo_create 150 200)) = demo_store"
  by (simp add: tossRoutes_create_def storage_defs demo_defs schema_defs no_faults_def Let_def)



lemma playSchema_amount: "playSchema b = Some (a, t) \<Longrightarrow> 10 \<le> a"
  by (auto simp: playSchema_def z_number_min_def z_team_def
      split: jsval.splits if_splits bind_splits)

section \<open>What a placed bet looks like\<close>






text \<open>
  The row that a placement stores, in terms of the request and of the store: the caller,
  the validated amount, the requested team, and the payout for the odds that the template
  or the match offers for that team.
\<close>

lemma tossRoutes_play_exact:
  assumes "validOnTemplate st req amount" "\<not> callerBlocked req" "callerId req = Some uid"
    "balanceOf st uid = Some b" "amount \<le> b"
    "map_option snd (playSchema (parsedBody (pr_body req))) = Some team"
    "templateOdds st req team = Some odds" "placementWorks flt"
  shows "\<exists>bet. placedBet (tossRoutes_play flt st req) = Some (nextGameId st, bet) \<and>
     games (snd (tossRoutes_play flt st req)) (nextGameId st) = Some bet \<and>
     g_userId bet = uid \<and> g_betAmount bet = amount \<and> g_prediction bet = team \<and>
     g_result bet = ''pending'' \<and> gameDataStatus bet = Some ''pending'' \<and>
     g_payout bet = potentialPayout (of_int amount) (of_int odds)"
  using assms
  by (auto simp: validOnTemplate_def callerBlocked_def callerId_def balanceOf_def
      placementWorks_def templateOdds_def tossRoutes_play_def storage_defs gameDataStatus_def
      placedBet_def Let_def split: option.splits if_splits)

lemma tossApi_play_direct_exact:
  assumes "validOnTemplate st req amount" "callerId req = Some uid"
    "balanceOf st uid = Some b" "amount \<le> b"
    "map_option snd (playSchema (parsedBody (pr_body req))) = Some team"
    "templateOdds st req team = Some odds" "placementWorks flt"
  shows "\<exists>bet. placedBet (tossApi_play_direct flt st req) = Some (nextGameId st, bet) \<and>
     games (snd (tossApi_play_direct flt st req)) (nextGameId st) = Some bet \<and>
     g_userId bet = uid \<and> g_betAmount bet = amount \<and> g_prediction bet = team \<and>
     g_result bet = ''pending'' \<and> gameDataStatus bet = Some ''pending'' \<and>
     g_payout bet = potentialPayout (of_int amount) (of_int odds)"
  using assms
  by (auto simp: validOnTemplate_def callerId_def balanceOf_def
      placementWorks_def templateOdds_def tossApi_play_direct_def storage_defs
      gameDataStatus_def placedBet_def Let_def split: option.splits if_splits)

lemma tossApi_play_exact:
  assumes "validOnMatch st req amount" "callerId req = Some uid"
    "balanceOf st uid = Some b" "amount \<le> b"
    "map_option snd (playSchema (parsedBody (pr_body req))) = Some team"
    "matchOdds st req team = Some odds" "placementWorks flt"
  shows "\<exists>bet. placedBet (tossApi_play flt st req) = Some (nextGameId st, bet) \<and>
     games (snd (tossApi_play flt st req)) (nextGameId st) = Some bet \<and>
     g_userId bet = uid \<and> g_betAmount bet = amount \<and> g_prediction bet = team \<and>
     g_result bet = ''pending'' \<and> gameDataStatus bet = Some ''pending'' \<and>
     g_payout bet = potentialPayout (of_int amount) (of_int odds)"
  using assms
  by (auto simp: validOnMatch_def callerId_def balanceOf_def
      placementWorks_def matchOdds_def tossApi_play_def storage_defs
      gameDataStatus_def placedBet_def Let_def split: option.splits if_splits)

lemma serve_play_exact:
  assumes "validPlacement st call amount" "bettor call = Some uid"
    "balanceOf st uid = Some b" "amount \<le> b"
    "requestedTeam call = Some team" "offeredOdds st call team = Some odds"
    "placementWorks flt"
  shows "\<exists>bet. placedBet (serve flt st call) = Some (nextGameId st, bet) \<and>
     games (snd (serve flt st call)) (nextGameId st) = Some bet \<and>
     g_userId bet = uid \<and> g_betAmount bet = amount \<and> g_prediction bet = team \<and>
     g_result bet = ''pending'' \<and> gameDataStatus bet = Some ''pending'' \<and>
     g_payout bet = potentialPayout (of_int amount) (of_int odds)"
proof (cases call)
  case (TossRoutesPlay req)
  with assms show ?thesis
    using tossRoutes_play_exact [of st req amount uid b team odds flt]
    by (simp add: validPlacement_def bettor_def requestedTeam_def offeredOdds_def)
next
  case (TossApiPlay req)
  with assms show ?thesis
    using tossApi_play_exact [of st req amount uid b team odds flt]
    by (simp add: validPlacement_def bettor_def requestedTeam_def offeredOdds_def)
next
  case (TossApiPlayDirect req)
  with assms show ?thesis
    using tossApi_play_direct_exact [of st req amount uid b team odds flt]
    by (simp add: validPlacement_def bettor_def requestedTeam_def offeredOdds_def)
qed (use assms in \<open>simp_all add: validPlacement_def\<close>)







section \<open>A placement that passes the checks\<close>









section \<open>A placement on a game that is not open\<close>







section \<open>The balance check\<close>



section \<open>The debit and the bet row\<close>




section \<open>Blocked accounts\<close>

text \<open>
  C6. A blocked account must not be able to place a bet on any route. The route of
  \<^verbatim>\<open>cricket-toss.ts\<close> refuses the blocked player with \<open>AccountBlocked\<close>; both versions of
  the route of \<^verbatim>\<open>cricket-toss-api.ts\<close> never look at the flag: for the same request the
  bet is placed (row 2) and the blocked player's balance goes from 1000 to 900.
\<close>

theorem blocked_account_bets_on_api_route:
  "callerBlocked (demo_play demo_blocked 100 TEAM_A) \<and>
   map_option u_isBlocked (users demo_store 8) = Some True \<and>
   balanceOf demo_store 8 = Some 1000 \<and>
   failedWith (tossRoutes_play no_faults demo_store (demo_play demo_blocked 100 TEAM_A))
     = Some AccountBlocked \<and>
   succeeded (tossApi_play no_faults demo_store (demo_play demo_blocked 100 TEAM_A)) \<and>
   balanceOf (snd (tossApi_play no_faults demo_store (demo_play demo_blocked 100 TEAM_A))) 8
     = Some 900 \<and>
   map_option fst (placedBet (tossApi_play no_faults demo_store
                                (demo_play demo_blocked 100 TEAM_A))) = Some 2 \<and>
   succeeded (tossApi_play_direct no_faults demo_store (demo_play demo_blocked 100 TEAM_A)) \<and>
   balanceOf (snd (tossApi_play_direct no_faults demo_store
                     (demo_play demo_blocked 100 TEAM_A))) 8 = Some 900"
  by (simp add: tossRoutes_play_def tossApi_play_def tossApi_play_direct_def storage_defs
      demo_defs reading_defs schema_defs no_faults_def Let_def demo_payouts)

section \<open>Declaring a result\<close>

lemma tossApi_result_overwrites:
  assumes "requireAdmin (rr_user req) = None" "rr_id req = Some gameId"
    "declareCricketTossResultSchema (rr_result req) = Some result"
    "games st gameId = Some game" "g_gameType game = CRICKET_TOSS"
  shows "tossApi_result no_faults st req =
    (Inr (GameUpdated (Some (game\<lparr>g_result := result\<rparr>))),
     st\<lparr>games := (games st)
            (gameId \<mapsto> game\<lparr>g_result := result, g_status := Some ''resulted''\<rparr>)\<rparr>)"
  using assms by (simp add: tossApi_result_def storage_defs no_faults_def Let_def)

lemma tossApi_result_sql_overwrites:
  assumes "requireAdmin (rr_user req) = None" "rr_id req = Some gameId"
    "declareCricketTossResultSchema (rr_result req) = Some result"
    "games st gameId = Some game" "g_gameType game = CRICKET_TOSS"
  shows "tossApi_result_sql no_faults st req =
    (Inr (GameUpdated (Some (game\<lparr>g_result := result\<rparr>))),
     st\<lparr>games := (games st)(gameId \<mapsto> game\<lparr>g_result := result\<rparr>)\<rparr>)"
  using assms by (simp add: tossApi_result_sql_def storage_defs no_faults_def Let_def)

text \<open>
  C1. Declaring the outcome of a game should settle the pending bets on it: a bet that
  predicted the outcome is won and its owner is credited with \<open>\<lfloor>amount * odds / 100\<rfloor>\<close>, 1500
  for the bet of 1000 on team A at odds 150. The result routes settle nothing. The player has
  bet 1000 on team A (row 2, on the template 1) and holds a balance of 0 after the debit;
  team A is declared on the template; the call succeeds, the balance is still 0 and the bet
  row is what it was, its result "pending". This is so on the route that calls
  \<^verbatim>\<open>storage.updateGameResult\<close> and on the route that sends the SQL update itself.
\<close>

theorem declared_result_credits_no_winner:
  "games demo_store_bet 2 = Some demo_bet \<and> g_prediction demo_bet = TEAM_A \<and>
   g_betAmount demo_bet = 1000 \<and> betOdds demo_bet = Some 150 \<and>
   balanceOf demo_store_bet 7 = Some 0 \<and>
   succeeded (tossApi_result no_faults demo_store_bet (demo_declare TEAM_A)) \<and>
   balanceOf (snd (tossApi_result no_faults demo_store_bet (demo_declare TEAM_A))) 7 = Some 0 \<and>
   games (snd (tossApi_result no_faults demo_store_bet (demo_declare TEAM_A))) 2
     = Some demo_bet \<and>
   succeeded (tossApi_result_sql no_faults demo_store_bet (demo_declare TEAM_A)) \<and>
   balanceOf (snd (tossApi_result_sql no_faults demo_store_bet (demo_declare TEAM_A))) 7
     = Some 0 \<and>
   games (snd (tossApi_result_sql no_faults demo_store_bet (demo_declare TEAM_A))) 2
     = Some demo_bet \<and>
   g_result demo_bet = ''pending''"
proof -
  have a: "tossApi_result no_faults demo_store_bet (demo_declare TEAM_A) =
      (Inr (GameUpdated (Some (demo_template\<lparr>g_result := TEAM_A\<rparr>))),
       demo_store_bet\<lparr>games := (games demo_store_bet)
         (1 \<mapsto> demo_template\<lparr>g_result := TEAM_A, g_status := Some ''resulted''\<rparr>)\<rparr>)"
    by (rule tossApi_result_overwrites)
       (simp_all add: demo_store_bet_rows demo_declare_def demo_admin_def demo_template_def
         schema_defs)
  have b: "tossApi_result_sql no_faults demo_store_bet (demo_declare TEAM_A) =
      (Inr (GameUpdated (Some (demo_template\<lparr>g_result := TEAM_A\<rparr>))),
       demo_store_bet\<lparr>games := (games demo_store_bet)
         (1 \<mapsto> demo_template\<lparr>g_result := TEAM_A\<rparr>)\<rparr>)"
    by (rule tossApi_result_sql_overwrites)
       (simp_all add: demo_store_bet_rows demo_declare_def demo_admin_def demo_template_def
         schema_defs)
  have c: "balanceOf (demo_store_bet\<lparr>games := g\<rparr>) 7 = Some 0" for g
    using demo_store_bet_rows(5) by (simp add: balanceOf_def)
  show ?thesis
    unfolding a b
    by (simp add: demo_store_bet_rows c succeeded_def) (simp add: demo_bet_def betOdds_def)
qed

text \<open>
  C2, as the code has it. Neither result route looks at the status of the game, and no
  route ever answers "already settled". Declaring a result on a cricket toss game that is
  already resulted succeeds, for an admin and a well-formed request: the stored result is
  overwritten with the outcome now declared, the status stays "resulted", and nothing
  else in the store changes (no other row, no payout, no balance).
\<close>

theorem declaring_again_overwrites_result:
  assumes "requireAdmin (rr_user req) = None" "rr_id req = Some gameId"
    "declareCricketTossResultSchema (rr_result req) = Some result"
    "games st gameId = Some game" "g_gameType game = CRICKET_TOSS"
    "g_status game = Some ''resulted''"
  shows "tossApi_result no_faults st req =
      (Inr (GameUpdated (Some (game\<lparr>g_result := result\<rparr>))),
       st\<lparr>games := (games st)(gameId \<mapsto> game\<lparr>g_result := result\<rparr>)\<rparr>) \<and>
    tossApi_result_sql no_faults st req =
      (Inr (GameUpdated (Some (game\<lparr>g_result := result\<rparr>))),
       st\<lparr>games := (games st)(gameId \<mapsto> game\<lparr>g_result := result\<rparr>)\<rparr>) \<and>
    g_status (game\<lparr>g_result := result\<rparr>) = Some ''resulted''"
proof -
  have "game\<lparr>g_result := result, g_status := Some ''resulted''\<rparr> = game\<lparr>g_result := result\<rparr>"
    using assms(6) by (cases game) simp
  with tossApi_result_overwrites [OF assms(1-5)] tossApi_result_sql_overwrites [OF assms(1-5)]
    assms(6)
  show ?thesis by simp
qed

theorem declaring_again_overwrites_result_witness:
  "requireAdmin (rr_user (demo_declare TEAM_B)) = None \<and>
   rr_id (demo_declare TEAM_B) = Some 1 \<and>
   declareCricketTossResultSchema (rr_result (demo_declare TEAM_B)) = Some TEAM_B \<and>
   games demo_store_resulted 1 = Some demo_template_resulted \<and>
   g_gameType demo_template_resulted = CRICKET_TOSS \<and>
   g_status demo_template_resulted = Some ''resulted'' \<and>
   tossApi_result no_faults demo_store_resulted (demo_declare TEAM_B) =
     (Inr (GameUpdated (Some (demo_template_resulted\<lparr>g_result := TEAM_B\<rparr>))),
      demo_store_resulted\<lparr>games := (games demo_store_resulted)
        (1 \<mapsto> demo_template_resulted\<lparr>g_result := TEAM_B\<rparr>)\<rparr>)"
  using declaring_again_overwrites_result
      [OF demo_admin_requests(1) demo_admin_requests(2) demo_admin_requests(3)
        demo_store_resulted_rows(1) demo_store_resulted_rows(4) demo_store_resulted_rows(2)]
    demo_admin_requests(1-3) demo_store_resulted_rows
  by simp

text \<open>
  The claim C2 says that a second declaration fails and changes nothing. The template is
  resulted with the result team A; declaring team B succeeds on both result routes and the
  stored result is team B afterwards.
\<close>

theorem declaring_again_counterexample:
  "map_option g_status (games demo_store_resulted 1) = Some (Some ''resulted'') \<and>
   map_option g_result (games demo_store_resulted 1) = Some TEAM_A \<and>
   succeeded (tossApi_result no_faults demo_store_resulted (demo_declare TEAM_B)) \<and>
   map_option g_result
     (games (snd (tossApi_result no_faults demo_store_resulted (demo_declare TEAM_B))) 1)
     = Some TEAM_B \<and>
   succeeded (tossApi_result_sql no_faults demo_store_resulted (demo_declare TEAM_B)) \<and>
   map_option g_result
     (games (snd (tossApi_result_sql no_faults demo_store_resulted (demo_declare TEAM_B))) 1)
     = Some TEAM_B"
proof -
  have a: "tossApi_result no_faults demo_store_resulted (demo_declare TEAM_B) =
      (Inr (GameUpdated (Some (demo_template_resulted\<lparr>g_result := TEAM_B\<rparr>))),
       demo_store_resulted\<lparr>games := (games demo_store_resulted)
         (1 \<mapsto> demo_template_resulted\<lparr>g_result := TEAM_B, g_status := Some ''resulted''\<rparr>)\<rparr>)"
    by (rule tossApi_result_overwrites)
       (simp_all add: demo_admin_requests demo_store_resulted_rows)
  have b: "tossApi_result_sql no_faults demo_store_resulted (demo_declare TEAM_B) =
      (Inr (GameUpdated (Some (demo_template_resulted\<lparr>g_result := TEAM_B\<rparr>))),
       demo_store_resulted\<lparr>games := (games demo_store_resulted)
         (1 \<mapsto> demo_template_resulted\<lparr>g_result := TEAM_B\<rparr>)\<rparr>)"
    by (rule tossApi_result_sql_overwrites)
       (simp_all add: demo_admin_requests demo_store_resulted_rows)
  show ?thesis
    unfolding a b by (simp add: demo_store_resulted_rows succeeded_def)
qed

section \<open>Changing the status\<close>

lemma tossApi_status_sets:
  assumes "requireAdmin (sr_user req) = None" "sr_id req = Some gameId"
    "updateCricketTossStatusSchema (sr_status req) = Some status"
    "games st gameId = Some game" "g_gameType game = CRICKET_TOSS"
  shows "tossApi_status no_faults st req =
    (Inr (GameUpdated (Some (game\<lparr>g_status := Some status\<rparr>))),
     st\<lparr>games := (games st)(gameId \<mapsto> game\<lparr>g_status := Some status\<rparr>)\<rparr>)"
  using assms by (simp add: tossApi_status_def storage_defs no_faults_def Let_def)

text \<open>
  C5, as the code has it. The status route makes no check of the current status: for an
  admin, a cricket toss game that exists and a requested status among "open", "closed"
  and "resulted", the call succeeds and the status of the game is the requested one,
  whatever it was before. So closing never fails with an invalid transition, and a
  resulted game can be set back to closed or to open.
\<close>

theorem status_route_sets_any_status:
  assumes "requireAdmin (sr_user req) = None" "sr_id req = Some gameId"
    "sr_status req = JString status" "status \<in> {''open'', ''closed'', ''resulted''}"
    "games st gameId = Some game" "g_gameType game = CRICKET_TOSS"
  shows "tossApi_status no_faults st req =
    (Inr (GameUpdated (Some (game\<lparr>g_status := Some status\<rparr>))),
     st\<lparr>games := (games st)(gameId \<mapsto> game\<lparr>g_status := Some status\<rparr>)\<rparr>)"
proof -
  from assms(3,4) have "updateCricketTossStatusSchema (sr_status req) = Some status"
    by (auto simp: updateCricketTossStatusSchema_def)
  with assms(1,2,5,6) show ?thesis
    by (simp add: tossApi_status_sets)
qed

theorem status_route_sets_any_status_witness:
  "requireAdmin (sr_user (demo_set_status ''open'')) = None \<and>
   sr_id (demo_set_status ''open'') = Some 1 \<and>
   sr_status (demo_set_status ''open'') = JString ''open'' \<and>
   ''open'' \<in> {''open'', ''closed'', ''resulted''} \<and>
   games demo_store_resulted 1 = Some demo_template_resulted \<and>
   g_gameType demo_template_resulted = CRICKET_TOSS \<and>
   tossApi_status no_faults demo_store_resulted (demo_set_status ''open'') =
     (Inr (GameUpdated (Some (demo_template_resulted\<lparr>g_status := Some ''open''\<rparr>))),
      demo_store_resulted\<lparr>games := (games demo_store_resulted)
        (1 \<mapsto> demo_template_resulted\<lparr>g_status := Some ''open''\<rparr>)\<rparr>)"
proof -
  have m: "''open'' \<in> {''open'', ''closed'', ''resulted''}" by simp
  from status_route_sets_any_status
      [OF demo_admin_requests(4) demo_admin_requests(5) demo_admin_requests(6) m
        demo_store_resulted_rows(1) demo_store_resulted_rows(4)]
    demo_admin_requests(4-6) demo_store_resulted_rows(1,4) m
  show ?thesis by simp
qed

text \<open>
  The claim C5 says that closing a game that is not open fails and that a resulted game
  never returns to closed or open. The template is resulted; the request to close it
  succeeds and leaves it closed, and the request to open it succeeds and leaves it open.
\<close>

theorem status_goes_back_counterexample:
  "map_option g_status (games demo_store_resulted 1) = Some (Some ''resulted'') \<and>
   succeeded (tossApi_status no_faults demo_store_resulted (demo_set_status ''closed'')) \<and>
   map_option g_status
     (games (snd (tossApi_status no_faults demo_store_resulted (demo_set_status ''closed''))) 1)
     = Some (Some ''closed'') \<and>
   succeeded (tossApi_status no_faults demo_store_resulted (demo_set_status ''open'')) \<and>
   map_option g_status
     (games (snd (tossApi_status no_faults demo_store_resulted (demo_set_status ''open''))) 1)
     = Some (Some ''open'')"
proof -
  have a: "tossApi_status no_faults demo_store_resulted (demo_set_status s) =
      (Inr (GameUpdated (Some (demo_template_resulted\<lparr>g_status := Some s\<rparr>))),
       demo_store_resulted\<lparr>games := (games demo_store_resulted)
         (1 \<mapsto> demo_template_resulted\<lparr>g_status := Some s\<rparr>)\<rparr>)"
    if "s \<in> {''open'', ''closed'', ''resulted''}" for s
    by (rule tossApi_status_sets)
       (use that in \<open>auto simp: demo_admin_requests demo_store_resulted_rows
         updateCricketTossStatusSchema_def\<close>)
  show ?thesis
    by (simp add: a demo_store_resulted_rows succeeded_def)
qed

section \<open>The payout computation\<close>

text \<open>
  C9, as the code has it. The payout of a placement is
  \<^verbatim>\<open>Math.floor((betAmount * odds) / 100)\<close> in double arithmetic, with the scale fixed at 100,
  for the validated amount and the odds that the template or the match offers for the
  requested team: this is the payout of the bet row that every play route stores for a
  placement that passes the checks and is covered by the balance. For an amount and odds
  whose product is at least 0 and at most \<open>2^53\<close>, it is the floor of the exact ratio
  \<open>amount * odds / 100\<close>: it never exceeds the ratio, misses it by less than one unit, and
  is the quotient truncated toward zero (\<open>sdiv\<close>).
\<close>

theorem payout_is_floor_of_scaled_product:
  "(validPlacement st call amount \<and> bettor call = Some uid \<and> balanceOf st uid = Some b \<and>
    amount \<le> b \<and> requestedTeam call = Some team \<and> offeredOdds st call team = Some odds \<and>
    placementWorks flt \<longrightarrow>
      (\<exists>bet. placedBet (serve flt st call) = Some (nextGameId st, bet) \<and>
         g_betAmount bet = amount \<and>
         g_payout bet = potentialPayout (of_int amount) (of_int odds))) \<and>
   (0 \<le> amount * odds \<and> amount * odds \<le> 2 ^ 53 \<longrightarrow>
      potentialPayout (of_int amount) (of_int odds)
        = \<lfloor>real_of_int amount * real_of_int odds / 100\<rfloor> \<and>
      real_of_int (potentialPayout (of_int amount) (of_int odds))
        \<le> real_of_int amount * real_of_int odds / 100 \<and>
      real_of_int amount * real_of_int odds / 100
        < real_of_int (potentialPayout (of_int amount) (of_int odds)) + 1 \<and>
      potentialPayout (of_int amount) (of_int odds) = (amount * odds) sdiv 100)"
proof (intro conjI impI)
  assume "validPlacement st call amount \<and> bettor call = Some uid \<and>
    balanceOf st uid = Some b \<and> amount \<le> b \<and> requestedTeam call = Some team \<and>
    offeredOdds st call team = Some odds \<and> placementWorks flt"
  then show "\<exists>bet. placedBet (serve flt st call) = Some (nextGameId st, bet) \<and>
         g_betAmount bet = amount \<and>
         g_payout bet = potentialPayout (of_int amount) (of_int odds)"
    using serve_play_exact [of st call amount uid b team odds flt] by blast
next
  assume r: "0 \<le> amount * odds \<and> amount * odds \<le> 2 ^ 53"
  then have ex: "potentialPayout (of_int amount) (of_int odds) = (amount * odds) div 100"
    by (simp add: potentialPayout_exact)
  have "(amount * odds) div 100 = \<lfloor>real_of_int (amount * odds) / real_of_int 100\<rfloor>"
    by (rule floor_divide_of_int_eq [symmetric])
  then have fl: "(amount * odds) div 100 = \<lfloor>real_of_int amount * real_of_int odds / 100\<rfloor>"
    by simp
  show "potentialPayout (of_int amount) (of_int odds)
      = \<lfloor>real_of_int amount * real_of_int odds / 100\<rfloor>"
    using ex fl by simp
  show "real_of_int (potentialPayout (of_int amount) (of_int odds))
      \<le> real_of_int amount * real_of_int odds / 100"
    unfolding ex fl by (rule of_int_floor_le)
  show "real_of_int amount * real_of_int odds / 100
      < real_of_int (potentialPayout (of_int amount) (of_int odds)) + 1"
    unfolding ex fl by linarith
  show "potentialPayout (of_int amount) (of_int odds) = (amount * odds) sdiv 100"
    using r ex by (simp add: signed_divide_int_def sgn_if)
qed

theorem payout_is_floor_of_scaled_product_witness:
  "validPlacement demo_store (TossApiPlay (demo_play demo_player 1000 TEAM_A)) 1000 \<and>
   bettor (TossApiPlay (demo_play demo_player 1000 TEAM_A)) = Some 7 \<and>
   balanceOf demo_store 7 = Some 1000 \<and> (1000::int) \<le> 1000 \<and>
   requestedTeam (TossApiPlay (demo_play demo_player 1000 TEAM_A)) = Some TEAM_A \<and>
   offeredOdds demo_store (TossApiPlay (demo_play demo_player 1000 TEAM_A)) TEAM_A = Some 150 \<and>
   placementWorks no_faults \<and> (0::int) \<le> 1000 * 150 \<and> (1000::int) * 150 \<le> 2 ^ 53 \<and>
   map_option (g_payout \<circ> snd)
     (placedBet (serve no_faults demo_store (TossApiPlay (demo_play demo_player 1000 TEAM_A))))
     = Some (potentialPayout 1000 150) \<and>
   potentialPayout 1000 150 = 1500 \<and>
   potentialPayout 1000 150 = (1000 * 150) sdiv 100 \<and>
   real_of_int (potentialPayout 1000 150) \<le> 1000 * 150 / 100"
proof -
  have rq: "requestedTeam (TossApiPlay (demo_play demo_player 1000 TEAM_A)) = Some TEAM_A"
    and od: "offeredOdds demo_store (TossApiPlay (demo_play demo_player 1000 TEAM_A)) TEAM_A
      = Some 150"
    and wk: "placementWorks no_faults"
    by (simp_all add: requestedTeam_def offeredOdds_def matchOdds_def placementWorks_def
        demo_defs schema_defs no_faults_def)
  from payout_is_floor_of_scaled_product
      [of demo_store "TossApiPlay (demo_play demo_player 1000 TEAM_A)" 1000 7 1000 TEAM_A 150
        no_faults]
    demo_player_placement(2,5,6) rq od wk
  show ?thesis
    by (auto simp: demo_payouts)
qed

text \<open>
  The claim C9 says that the payout is the floor in exact integer arithmetic and never
  exceeds \<open>amount * odds / 100\<close>, for every amount and odds. For the amount
  9007199254740990 at odds 150 the product is above \<open>2^53\<close>: it is rounded up to a
  double, the quotient is rounded up again, and the payout is 13510798882111486, above the
  ratio 13510798882111485; the route of \<^verbatim>\<open>cricket-toss.ts\<close> stores this payout for a
  player who holds that balance. For the double nearest to 10.1 at odds 1000 the product
  is rounded up to 10100 and the payout is 101, above the ratio.
\<close>

theorem payout_exceeds_exact_ratio_counterexample:
  "potentialPayout 9007199254740990 150 = 13510798882111486 \<and>
   (9007199254740990 * 150) div 100 = (13510798882111485::int) \<and>
   (9007199254740990 * 150 / 100 :: real) < 13510798882111486 \<and>
   map_option (g_payout \<circ> snd)
     (placedBet (tossRoutes_play no_faults demo_store_whale
        (demo_play demo_whale 9007199254740990 TEAM_A)))
     = Some 13510798882111486 \<and>
   potentialPayout (toDouble (101 / 10)) 1000 = 101 \<and>
   toDouble (101 / 10) * 1000 / 100 < 101"
proof -
  have a: "potentialPayout 9007199254740990 150 = 13510798882111486"
    by (rule demo_payouts)
  have b: "(9007199254740990 * 150) div 100 = (13510798882111485::int)"
    and c: "(9007199254740990 * 150 / 100 :: real) < 13510798882111486"
    by simp_all
  have d: "map_option (g_payout \<circ> snd)
     (placedBet (tossRoutes_play no_faults demo_store_whale
        (demo_play demo_whale 9007199254740990 TEAM_A)))
     = Some 13510798882111486"
    by (simp add: tossRoutes_play_def storage_defs demo_defs reading_defs schema_defs
        no_faults_def Let_def demo_payouts)
  have e: "potentialPayout (toDouble (101 / 10)) 1000 = 101"
    by code_simp
  have f: "toDouble (101 / 10) * 1000 / 100 < 101"
    by code_simp
  from a b c d e f show ?thesis by blast
qed

section \<open>The odds of a template\<close>

lemma createCricketTossSchema_range:
  "createCricketTossSchema b = Some d \<Longrightarrow>
     100 \<le> cd_oddTeamA d \<and> cd_oddTeamA d \<le> 2000 \<and>
     100 \<le> cd_oddTeamB d \<and> cd_oddTeamB d \<le> 2000"
  by (auto simp: createCricketTossSchema_def z_number_min_max_def
      split: bind_splits jsval.splits if_splits)

lemma createCricketTossSchema_rejects:
  "oddsOutOfRange (cb_oddTeamA b) \<or> oddsOutOfRange (cb_oddTeamB b) \<Longrightarrow>
     createCricketTossSchema b = None"
  by (auto simp: createCricketTossSchema_def z_number_min_max_def oddsOutOfRange_def
      split: bind_splits jsval.splits if_splits)

lemma create_routes_reject:
  assumes "createCricketTossSchema (cr_body req) = None"
  shows "snd (tossRoutes_create flt st req) = st \<and> snd (tossApi_create flt st req) = st \<and>
    failedWith (tossRoutes_create flt st req) \<noteq> None \<and>
    failedWith (tossApi_create flt st req) \<noteq> None \<and>
    (requireAdmin (cr_user req) = None \<longrightarrow>
       failedWith (tossRoutes_create flt st req) = Some ValidationError \<and>
       failedWith (tossApi_create flt st req) = Some ValidationError)"
  using assms
  by (simp add: tossRoutes_create_def tossApi_create_def requireAdmin_def failedWith_def
      split: option.split)

lemma tossRoutes_create_game:
  "case createdGame (tossRoutes_create flt st req) of
     None \<Rightarrow> True
   | Some (i, g) \<Rightarrow>
       games (snd (tossRoutes_create flt st req)) i = Some g \<and> isTemplate g \<and> oddsInRange g"
  by (auto simp: createdGame_def tossRoutes_create_def storage_defs Let_def isTemplate_def
      oddsInRange_def dest: createCricketTossSchema_range split: option.split)

lemma tossApi_create_game:
  "case createdGame (tossApi_create flt st req) of
     None \<Rightarrow> True
   | Some (i, g) \<Rightarrow>
       games (snd (tossApi_create flt st req)) i = Some g \<and> isTemplate g \<and> oddsInRange g"
  by (auto simp: createdGame_def tossApi_create_def storage_defs Let_def isTemplate_def
      oddsInRange_def dest: createCricketTossSchema_range split: option.split)

lemma other_routes_create_nothing:
  "createdGame (tossRoutes_play flt st preq) = None"
  "createdGame (tossApi_play flt st preq) = None"
  "createdGame (tossApi_play_direct flt st preq) = None"
  "createdGame (tossApi_status flt st sreq) = None"
  "createdGame (tossApi_result flt st rreq) = None"
  "createdGame (tossApi_result_sql flt st rreq) = None"
  by (simp_all add: createdGame_def tossRoutes_play_def tossApi_play_def
      tossApi_play_direct_def tossApi_status_def tossApi_result_def tossApi_result_sql_def
      storage_defs Let_def split: option.split prod.split list.split)

lemma serve_created_game:
  assumes "createdGame (serve flt st call) = Some (i, g)"
  shows "games (snd (serve flt st call)) i = Some g \<and> isTemplate g \<and> oddsInRange g"
proof (cases call)
  case (TossRoutesCreate req)
  with assms tossRoutes_create_game [of flt st req] show ?thesis
    by simp
next
  case (TossApiCreate req)
  with assms tossApi_create_game [of flt st req] show ?thesis
    by simp
qed (use assms in \<open>simp_all add: other_routes_create_nothing\<close>)

subsection \<open>Every route keeps the templates in range\<close>

lemma inv_upd:
  "templatesInRange st \<Longrightarrow> (isTemplate g \<longrightarrow> oddsInRange g) \<Longrightarrow>
   templatesInRange (st\<lparr>games := (games st)(i \<mapsto> g), nextGameId := n\<rparr>) \<and>
   templatesInRange (st\<lparr>games := (games st)(i \<mapsto> g)\<rparr>)"
  by (auto simp: templatesInRange_def)

lemma inv_users: "templatesInRange (updateUserBalance st i b) = templatesInRange st"
  by (simp add: templatesInRange_def updateUserBalance_def split: option.split)

lemma inv_tossRoutes_create:
  "templatesInRange st \<Longrightarrow> templatesInRange (snd (tossRoutes_create flt st req))"
  by (auto simp: tossRoutes_create_def createGame_def Let_def inv_upd oddsInRange_def
      dest: createCricketTossSchema_range split: option.split)

lemma inv_tossApi_create:
  "templatesInRange st \<Longrightarrow> templatesInRange (snd (tossApi_create flt st req))"
  by (auto simp: tossApi_create_def createGame_def Let_def inv_upd oddsInRange_def
      dest: createCricketTossSchema_range split: option.split)

lemma inv_tossRoutes_play:
  "templatesInRange st \<Longrightarrow> templatesInRange (snd (tossRoutes_play flt st req))"
  by (auto simp: tossRoutes_play_def createGame_def getGame_def getUser_def Let_def inv_upd
      inv_users isTemplate_def dest: playSchema_amount split: option.split)

lemma inv_tossApi_play:
  "templatesInRange st \<Longrightarrow> templatesInRange (snd (tossApi_play flt st req))"
  by (auto simp: tossApi_play_def createGame_def getTeamMatch_def getUser_def Let_def inv_upd
      inv_users isTemplate_def dest: playSchema_amount split: option.split)

lemma inv_tossApi_play_direct:
  "templatesInRange st \<Longrightarrow> templatesInRange (snd (tossApi_play_direct flt st req))"
  by (auto simp: tossApi_play_direct_def createGame_def getGame_def getUser_def Let_def inv_upd
      inv_users isTemplate_def dest: playSchema_amount split: option.split)

lemma inv_row_update:
  assumes "templatesInRange st" "games st i = Some g"
    "isTemplate g' = isTemplate g" "oddsInRange g' = oddsInRange g"
  shows "templatesInRange (st\<lparr>games := (games st)(i \<mapsto> g')\<rparr>)"
  using assms by (auto simp: templatesInRange_def)

lemma inv_updateGameStatus:
  "templatesInRange st \<Longrightarrow> templatesInRange (snd (updateGameStatus st i s))"
  by (auto simp: updateGameStatus_def Let_def isTemplate_def oddsInRange_def
      intro!: inv_row_update split: option.split)

lemma inv_updateResultColumn:
  "templatesInRange st \<Longrightarrow> templatesInRange (snd (updateResultColumn st r i))"
  by (auto simp: updateResultColumn_def Let_def isTemplate_def oddsInRange_def
      intro!: inv_row_update split: option.split)

lemma inv_updateGameResult:
  "templatesInRange st \<Longrightarrow> templatesInRange (snd (updateGameResult st i r))"
  using inv_updateResultColumn [of st r i]
  by (auto simp: updateGameResult_def split: prod.split list.split)

lemma inv_tossApi_status:
  "templatesInRange st \<Longrightarrow> templatesInRange (snd (tossApi_status flt st req))"
  using inv_updateGameStatus [of st]
  by (auto simp: tossApi_status_def getGame_def case_prod_beta split: option.split)

lemma inv_tossApi_result:
  "templatesInRange st \<Longrightarrow> templatesInRange (snd (tossApi_result flt st req))"
proof -
  assume inv: "templatesInRange st"
  have "templatesInRange (snd (updateGameStatus (snd (updateGameResult st i r)) i s))" for i r s
    by (rule inv_updateGameStatus) (rule inv_updateGameResult [OF inv])
  with inv inv_updateGameResult [OF inv] show ?thesis
    by (auto simp: tossApi_result_def getGame_def case_prod_beta split: option.split)
qed

lemma inv_tossApi_result_sql:
  "templatesInRange st \<Longrightarrow> templatesInRange (snd (tossApi_result_sql flt st req))"
  using inv_updateResultColumn [of st]
  by (auto simp: tossApi_result_sql_def getGame_def case_prod_beta split: option.split)

lemma inv_serve: "templatesInRange st \<Longrightarrow> templatesInRange (snd (serve flt st call))"
  by (cases call)
     (simp_all add: inv_tossRoutes_create inv_tossRoutes_play inv_tossApi_create
       inv_tossApi_status inv_tossApi_result inv_tossApi_play inv_tossApi_result_sql
       inv_tossApi_play_direct)

lemma inv_serveAll: "templatesInRange st \<Longrightarrow> templatesInRange (serveAll st calls)"
proof (induction calls arbitrary: st)
  case Nil
  then show ?case by simp
next
  case (Cons c calls)
  obtain flt call where c: "c = (flt, call)" by (cases c)
  from Cons.prems have "templatesInRange (snd (serve flt st call))"
    by (rule inv_serve)
  then have "templatesInRange (serveAll (snd (serve flt st call)) calls)"
    by (rule Cons.IH)
  with c show ?case by simp
qed

text \<open>
  C10. A creation request in which the odds of either team are a number below 100 or above
  2000 is refused on both creation routes and nothing is stored; the refusal is the
  validation error whenever the caller is an admin (any other caller is turned away before
  the body is looked at). Consequently the templates have their odds in range: the row
  that a successful creation stores is a template with both odds within 100 and 2000, and
  if every template of the store has both odds within 100 and 2000, this is still so after
  any sequence of requests to any of the routes, whatever storage calls throw on the way.
\<close>

theorem odds_out_of_range_are_rejected:
  "(oddsOutOfRange (cb_oddTeamA (cr_body req)) \<or> oddsOutOfRange (cb_oddTeamB (cr_body req)) \<longrightarrow>
      snd (tossRoutes_create flt st req) = st \<and> snd (tossApi_create flt st req) = st \<and>
      failedWith (tossRoutes_create flt st req) \<noteq> None \<and>
      failedWith (tossApi_create flt st req) \<noteq> None \<and>
      (requireAdmin (cr_user req) = None \<longrightarrow>
         failedWith (tossRoutes_create flt st req) = Some ValidationError \<and>
         failedWith (tossApi_create flt st req) = Some ValidationError)) \<and>
   (createdGame (serve flt st call) = Some (i, g) \<longrightarrow>
      games (snd (serve flt st call)) i = Some g \<and> isTemplate g \<and> oddsInRange g) \<and>
   (templatesInRange st \<longrightarrow> templatesInRange (serveAll st calls))"
  using create_routes_reject [OF createCricketTossSchema_rejects, of req flt st]
    serve_created_game [of flt st call i g] inv_serveAll [of st calls]
  by blast

theorem odds_out_of_range_are_rejected_witness:
  "oddsOutOfRange (cb_oddTeamA (cr_body (demo_create 99 150))) \<and>
   requireAdmin (cr_user (demo_create 99 150)) = None \<and>
   snd (tossRoutes_create no_faults demo_store (demo_create 99 150)) = demo_store \<and>
   failedWith (tossApi_create no_faults demo_store (demo_create 99 150))
     = Some ValidationError \<and>
   oddsOutOfRange (cb_oddTeamB (cr_body (demo_create 150 2001))) \<and>
   snd (tossApi_create no_faults demo_store (demo_create 150 2001)) = demo_store \<and>
   failedWith (tossRoutes_create no_faults demo_store (demo_create 150 2001))
     = Some ValidationError \<and>
   createdGame (serve no_faults demo_store (TossRoutesCreate (demo_create 100 2000)))
     = Some (2, demo_template\<lparr>g_gameData :=
         map_option (\<lambda>gd. gd\<lparr>gd_oddTeamA := 100, gd_oddTeamB := 2000\<rparr>)
           (g_gameData demo_template)\<rparr>) \<and>
   oddsInRange (demo_template\<lparr>g_gameData :=
         map_option (\<lambda>gd. gd\<lparr>gd_oddTeamA := 100, gd_oddTeamB := 2000\<rparr>)
           (g_gameData demo_template)\<rparr>) \<and>
   templatesInRange demo_store \<and>
   templatesInRange (serveAll demo_store
     [(no_faults, TossRoutesCreate (demo_create 100 2000)),
      (createGame_fails, TossApiPlay (demo_play demo_player 1000 TEAM_A)),
      (no_faults, TossApiStatus (demo_set_status ''closed''))])"
proof -
  have a: "oddsOutOfRange (cb_oddTeamA (cr_body (demo_create 99 150)))"
    and b: "oddsOutOfRange (cb_oddTeamB (cr_body (demo_create 150 2001)))"
    by (simp_all add: oddsOutOfRange_def demo_create_def)
  have c: "createdGame (serve no_faults demo_store (TossRoutesCreate (demo_create 100 2000)))
     = Some (2, demo_template\<lparr>g_gameData :=
         map_option (\<lambda>gd. gd\<lparr>gd_oddTeamA := 100, gd_oddTeamB := 2000\<rparr>)
           (g_gameData demo_template)\<rparr>)"
    by (simp add: tossRoutes_create_def storage_defs demo_defs createdGame_def schema_defs
        no_faults_def Let_def)
  have d: "templatesInRange demo_store"
    by (auto simp: templatesInRange_def demo_defs oddsInRange_def split: if_splits)
  from a b c d demo_admin_requests(7)
    odds_out_of_range_are_rejected [of "demo_create 99 150" no_faults demo_store]
    odds_out_of_range_are_rejected [of "demo_create 150 2001" no_faults demo_store]
    odds_out_of_range_are_rejected
      [of "demo_create 150 200" no_faults demo_store
        "TossRoutesCreate (demo_create 100 2000)" 2
        "demo_template\<lparr>g_gameData :=
           map_option (\<lambda>gd. gd\<lparr>gd_oddTeamA := 100, gd_oddTeamB := 2000\<rparr>)
             (g_gameData demo_template)\<rparr>"
        "[(no_faults, TossRoutesCreate (demo_create 100 2000)),
          (createGame_fails, TossApiPlay (demo_play demo_player 1000 TEAM_A)),
          (no_faults, TossApiStatus (demo_set_status ''closed''))]"]
  show ?thesis
    by blast
qed

end
